theory Spec2Isabelle
  imports Main
begin

section \<open>Remote calls, errors and the observable world\<close>

text \<open>
  The two lifecycle handlers of the repository talk to remote control planes through
  \<^verbatim>\<open>client.send(command)\<close> and wait with \<^verbatim>\<open>setTimeout\<close>. Both effects are made
  explicit: a world carries the (arbitrary) state of the remote side, the list of
  commands sent so far and the list of delays slept so far, in milliseconds.
  The remote side is any deterministic function \<open>respond\<close> from its state and a command
  to an answer (an error or a response) and its next state. Console output is not
  modelled.

  An error object is read by the code through its \<^verbatim>\<open>name\<close> field and through the
  truthiness of its \<^verbatim>\<open>$retryable\<close> field; the message is kept as well.
\<close>

record js_error =
  err_name :: "string option"
  err_retryable :: bool
  err_message :: string

record ('s, 'c) world =
  remote :: 's
  calls :: "'c list"
  sleeps :: "int list"

type_synonym ('s, 'c, 'r) remote_api = "'s \<Rightarrow> 'c \<Rightarrow> (js_error + 'r) \<times> 's"

text \<open>\<^verbatim>\<open>client.send(command)\<close>: the command is recorded, the remote side answers.\<close>

definition send :: "('s, 'c, 'r) remote_api \<Rightarrow> 'c \<Rightarrow> ('s, 'c) world \<Rightarrow> (js_error + 'r) \<times> ('s, 'c) world" where
  "send respond cmd w =
     (case respond (remote w) cmd of
        (ans, s') \<Rightarrow> (ans, w\<lparr>remote := s', calls := calls w @ [cmd]\<rparr>))"

text \<open>\<^verbatim>\<open>await new Promise((r) => setTimeout(r, delay))\<close>\<close>

definition sleep :: "int \<Rightarrow> ('s, 'c) world \<Rightarrow> ('s, 'c) world" where
  "sleep delay w = w\<lparr>sleeps := sleeps w @ [delay]\<rparr>"

text \<open>
  Sequencing of awaited steps: a step that throws ends the sequence with what it threw.
  A thrown value is \<open>'e\<close>.
\<close>

definition await :: "('w \<Rightarrow> ('e + 'a) \<times> 'w) \<Rightarrow> ('a \<Rightarrow> 'w \<Rightarrow> ('e + 'b) \<times> 'w) \<Rightarrow> 'w \<Rightarrow> ('e + 'b) \<times> 'w" where
  "await m f w = (case m w of (Inl e, w') \<Rightarrow> (Inl e, w') | (Inr v, w') \<Rightarrow> f v w')"

section \<open>The backoff retrier (\<^verbatim>\<open>withRetry\<close>)\<close>

text \<open>
  \<^verbatim>\<open>err.name ?? ''\<close>
\<close>

definition code_of :: "js_error \<Rightarrow> string" where
  "code_of err = (case err_name err of None \<Rightarrow> [] | Some n \<Rightarrow> n)"

text \<open>
  The loop of \<^verbatim>\<open>withRetry\<close>, from a given value of \<^verbatim>\<open>attempt\<close> and of
  \<^verbatim>\<open>lastError\<close>. What is thrown is \<^verbatim>\<open>unknown\<close> in the source: \<open>None\<close> is
  \<^verbatim>\<open>undefined\<close> (the initial value of \<^verbatim>\<open>lastError\<close>), \<open>Some err\<close> an error object.
\<close>

function withRetry_from ::
  "(('s, 'c) world \<Rightarrow> (js_error + 'a) \<times> ('s, 'c) world) \<Rightarrow> nat \<Rightarrow> int \<Rightarrow> nat \<Rightarrow> js_error option
     \<Rightarrow> ('s, 'c) world \<Rightarrow> (js_error option + 'a) \<times> ('s, 'c) world" where
  "withRetry_from fn maxRetries baseDelay attempt lastError w =
     (if attempt < maxRetries then
        (case fn w of
           (Inr v, w') \<Rightarrow> (Inr v, w')
         | (Inl err, w') \<Rightarrow>
             (let code = code_of err;
                  retryable = err_retryable err
              in if \<not> retryable \<and> code \<noteq> ''ThrottlingException'' \<and> code \<noteq> ''InternalFailure''
                 then (Inl (Some err), w')
                 else
                   (let delay = min (baseDelay * 2 ^ attempt) 30000
                                + (if code = ''ThrottlingException'' then 5000 else 0)
                    in withRetry_from fn maxRetries baseDelay (attempt + 1) (Some err) (sleep delay w'))))
      else (Inl lastError, w))"
  by pat_completeness auto
termination
  by (relation "measure (\<lambda>(fn, maxRetries, baseDelay, attempt, lastError, w). maxRetries - attempt)") auto

declare withRetry_from.simps [simp del]

text \<open>
  \<^verbatim>\<open>withRetry(fn, name, maxRetries = 10, baseDelay = 2000)\<close>; \<open>name\<close> only labels the
  log line. The callers pass the defaults explicitly here. The numbers of the source are
  integers here: every caller uses the base delay 2000 and at most 10 attempts, where
  the floating-point arithmetic of the source is exact.
\<close>

definition withRetry ::
  "(('s, 'c) world \<Rightarrow> (js_error + 'a) \<times> ('s, 'c) world) \<Rightarrow> string \<Rightarrow> nat \<Rightarrow> int
     \<Rightarrow> ('s, 'c) world \<Rightarrow> (js_error option + 'a) \<times> ('s, 'c) world" where
  "withRetry fn name maxRetries baseDelay w = withRetry_from fn maxRetries baseDelay 0 None w"

section \<open>The subscription workflow\<close>

record resource_properties =
  DirectoryId :: string
  AwsAccountId :: string
  AccountName :: string
  Edition :: string
  AuthenticationMethod :: string
  ActiveDirectoryName :: string
  Realm :: "string option"
  AdminGroup :: string
  AuthorGroup :: "string option"
  ReaderGroup :: "string option"
  NotificationEmail :: string

datatype request_type = Create | Update | Delete

record event =
  RequestType :: request_type
  ResourceProperties :: resource_properties
  OldResourceProperties :: "resource_properties option"
  PhysicalResourceId :: "string option"

text \<open>The handler's \<^verbatim>\<open>Response\<close>: \<^verbatim>\<open>PhysicalResourceId\<close> and \<^verbatim>\<open>Data?.Status\<close>.\<close>

record response =
  resp_PhysicalResourceId :: string
  resp_Status :: "string option"

text \<open>The input of \<^verbatim>\<open>CreateAccountSubscriptionCommand\<close>.\<close>

record create_input =
  in_AwsAccountId :: string
  in_AccountName :: string
  in_Edition :: string
  in_AuthenticationMethod :: string
  in_ActiveDirectoryName :: string
  in_AdminGroup :: "string list"
  in_AuthorGroup :: "string list"
  in_ReaderGroup :: "string list"
  in_NotificationEmail :: string

text \<open>
  The commands of the QuickSight client. \<open>UpdateAccountSettingsCommand\<close> carries
  \<^verbatim>\<open>AwsAccountId\<close>, \<^verbatim>\<open>DefaultNamespace\<close> and \<^verbatim>\<open>NotificationEmail\<close>.
\<close>

datatype qs_command =
    DescribeAccountSubscriptionCommand string
  | CreateAccountSubscriptionCommand create_input
  | DeleteAccountSubscriptionCommand string
  | UpdateAccountSettingsCommand string string string
  | ListNamespacesCommand string

text \<open>What the handler reads of a response; a field that is absent is \<open>None\<close>.\<close>

record namespace_info =
  CapacityRegion :: "string option"

record account_info =
  AccountSubscriptionStatus :: "string option"

record qs_output =
  AccountInfo :: "account_info option"
  Namespaces :: "namespace_info list option"

definition createSubscription ::
  "('s, qs_command, qs_output) remote_api \<Rightarrow> resource_properties
     \<Rightarrow> ('s, qs_command) world \<Rightarrow> (js_error option + unit) \<times> ('s, qs_command) world" where
  "createSubscription respond props =
     (let group = AdminGroup props in
      await
        (withRetry
           (send respond
              (CreateAccountSubscriptionCommand
                 \<lparr>in_AwsAccountId = AwsAccountId props,
                  in_AccountName = AccountName props,
                  in_Edition = Edition props,
                  in_AuthenticationMethod = AuthenticationMethod props,
                  in_ActiveDirectoryName = ActiveDirectoryName props,
                  in_AdminGroup = [group],
                  in_AuthorGroup = [group],
                  in_ReaderGroup = [group],
                  in_NotificationEmail = NotificationEmail props\<rparr>))
           ''createAccountSubscription'' 10 2000)
        (\<lambda>_ w. (Inr (), w)))"

text \<open>
  \<^verbatim>\<open>new Error(`QuickSight identity region ${capacityRegion} doesn't match ${process.env.AWS_REGION}`)\<close>;
  an undefined variable prints as \<^verbatim>\<open>undefined\<close>.
\<close>

definition region_mismatch_error :: "string \<Rightarrow> string option \<Rightarrow> js_error" where
  "region_mismatch_error capacityRegion AWS_REGION =
     \<lparr>err_name = Some ''Error'', err_retryable = False,
      err_message = ''QuickSight identity region '' @ capacityRegion @ '' doesn't match ''
                    @ (case AWS_REGION of None \<Rightarrow> ''undefined'' | Some r \<Rightarrow> r)\<rparr>"

text \<open>The \<^verbatim>\<open>PhysicalResourceId\<close> every Create and Update result carries.\<close>

definition physical_id :: "string \<Rightarrow> string" where
  "physical_id awsAccountId = ''quicksight-subscription-'' @ awsAccountId"

text \<open>The body of the \<^verbatim>\<open>try\<close> block of the handler.\<close>

definition handler_try ::
  "('s, qs_command, qs_output) remote_api \<Rightarrow> string option \<Rightarrow> resource_properties
     \<Rightarrow> ('s, qs_command) world \<Rightarrow> (js_error option + response) \<times> ('s, qs_command) world" where
  "handler_try respond AWS_REGION props =
     (let awsAccountId = AwsAccountId props in
      await
        (withRetry (send respond (DescribeAccountSubscriptionCommand awsAccountId))
           ''describeAccountSubscription'' 5 2000)
        (\<lambda>response.
           let status = (case AccountInfo response of None \<Rightarrow> None
                         | Some info \<Rightarrow> AccountSubscriptionStatus info)
           in if status = Some ''ACCOUNT_CREATED'' then
                await
                  (withRetry (send respond (ListNamespacesCommand awsAccountId)) ''listNamespaces'' 3 2000)
                  (\<lambda>nsResponse w.
                     let capacityRegion =
                           (case Namespaces nsResponse of None \<Rightarrow> None
                            | Some [] \<Rightarrow> None
                            | Some (ns # _) \<Rightarrow> CapacityRegion ns)
                     in case capacityRegion of
                          Some r \<Rightarrow>
                            if r \<noteq> [] \<and> capacityRegion \<noteq> AWS_REGION
                            then (Inl (Some (region_mismatch_error r AWS_REGION)), w)
                            else (Inr \<lparr>resp_PhysicalResourceId = physical_id awsAccountId,
                                       resp_Status = Some ''Existing''\<rparr>, w)
                        | None \<Rightarrow>
                            (Inr \<lparr>resp_PhysicalResourceId = physical_id awsAccountId,
                                  resp_Status = Some ''Existing''\<rparr>, w))
              else
                await
                  (if status = Some ''UNSUBSCRIBE_FAILED'' then
                     await
                       (withRetry
                          (send respond
                             (UpdateAccountSettingsCommand awsAccountId ''default'' (NotificationEmail props)))
                          ''updateAccountSettings'' 10 2000)
                       (\<lambda>_. await
                               (withRetry (send respond (DeleteAccountSubscriptionCommand awsAccountId))
                                  ''deleteAccountSubscription'' 10 2000)
                               (\<lambda>_ w. (Inr (), w)))
                   else (\<lambda>w. (Inr (), w)))
                  (\<lambda>_. await (createSubscription respond props)
                          (\<lambda>_ w. (Inr \<lparr>resp_PhysicalResourceId = physical_id awsAccountId,
                                        resp_Status = Some ''Created''\<rparr>, w)))))"

text \<open>
  The \<^verbatim>\<open>catch\<close> block. Reading \<^verbatim>\<open>.name\<close> of \<^verbatim>\<open>undefined\<close> throws a
  \<^verbatim>\<open>TypeError\<close>.
\<close>

definition type_error :: js_error where
  "type_error = \<lparr>err_name = Some ''TypeError'', err_retryable = False,
                 err_message = ''Cannot read properties of undefined (reading 'name')''\<rparr>"

definition handler_catch ::
  "('s, qs_command, qs_output) remote_api \<Rightarrow> resource_properties \<Rightarrow> js_error option
     \<Rightarrow> ('s, qs_command) world \<Rightarrow> (js_error option + response) \<times> ('s, qs_command) world" where
  "handler_catch respond props thrown =
     (let awsAccountId = AwsAccountId props in
      case thrown of
        None \<Rightarrow> (\<lambda>w. (Inl (Some type_error), w))
      | Some err \<Rightarrow>
          (let code = code_of err in
           if code = ''ResourceNotFoundException'' then
             await (createSubscription respond props)
               (\<lambda>_ w. (Inr \<lparr>resp_PhysicalResourceId = physical_id awsAccountId,
                             resp_Status = Some ''Created''\<rparr>, w))
           else if code = ''InternalFailure'' \<or> code = ''ThrottlingException'' then
             (\<lambda>w. (Inr \<lparr>resp_PhysicalResourceId = physical_id awsAccountId,
                         resp_Status = Some (''PartialFailure-'' @ code)\<rparr>, w))
           else (\<lambda>w. (Inl thrown, w))))"

definition handler ::
  "('s, qs_command, qs_output) remote_api \<Rightarrow> string option \<Rightarrow> event
     \<Rightarrow> ('s, qs_command) world \<Rightarrow> (js_error option + response) \<times> ('s, qs_command) world" where
  "handler respond AWS_REGION ev w =
     (let props = ResourceProperties ev in
      if RequestType ev = Delete then
        (Inr \<lparr>resp_PhysicalResourceId =
                 (case PhysicalResourceId ev of None \<Rightarrow> ''quicksight-subscription'' | Some p \<Rightarrow> p),
              resp_Status = None\<rparr>, w)
      else
        (case handler_try respond AWS_REGION props w of
           (Inr r, w') \<Rightarrow> (Inr r, w')
         | (Inl thrown, w') \<Rightarrow> handler_catch respond props thrown w'))"

section \<open>The stack that invokes the subscription workflow\<close>

text \<open>
  The custom resource properties that \<^verbatim>\<open>QuickSightSubscriptionStack\<close> passes to the
  handler. \<open>ctx\<close> is the CDK context (\<^verbatim>\<open>tryGetContext\<close>), \<open>account\<close> is
  \<^verbatim>\<open>this.account\<close>, and \<open>directoryId\<close> is the value of the SSM parameter
  \<^verbatim>\<open>/<projectPrefix>/<stage>/directory-id\<close>, which the stack uses both as
  \<^verbatim>\<open>ActiveDirectoryName\<close> and as \<^verbatim>\<open>DirectoryId\<close>.
\<close>

definition stack_properties ::
  "(string \<rightharpoonup> string) \<Rightarrow> string \<Rightarrow> string \<Rightarrow> string \<Rightarrow> string \<Rightarrow> resource_properties" where
  "stack_properties ctx account projectPrefix notificationEmail directoryId =
     (let adminGroup = (case ctx ''quickSightAdminGroup'' of None \<Rightarrow> ''QuickSightAdmins'' | Some g \<Rightarrow> g);
          authorGroup = (case ctx ''quickSightAuthorGroup'' of None \<Rightarrow> adminGroup | Some g \<Rightarrow> g);
          readerGroup = (case ctx ''quickSightReaderGroup'' of None \<Rightarrow> adminGroup | Some g \<Rightarrow> g)
      in \<lparr>DirectoryId = directoryId,
          AwsAccountId = account,
          AccountName = projectPrefix @ ''-'' @ account,
          Edition = ''ENTERPRISE'',
          AuthenticationMethod = ''ACTIVE_DIRECTORY'',
          ActiveDirectoryName = directoryId,
          Realm = None,
          AdminGroup = adminGroup,
          AuthorGroup = Some authorGroup,
          ReaderGroup = Some readerGroup,
          NotificationEmail = notificationEmail\<rparr>)"

section \<open>The compute workflow\<close>

text \<open>
  The second handler (\<^verbatim>\<open>lambda/ad-automation/index.ts\<close>) is also called
  \<^verbatim>\<open>handler\<close> in the source; here it is \<open>ad_handler\<close>, and the fields of its event
  and of its response carry the prefix \<open>ad_\<close>.
\<close>

record ad_resource_properties =
  ad_DirectoryId :: string
  SecurityGroupId :: string
  SubnetId :: string
  InstanceType :: string
  KeyPairSecretArn :: string
  AdminSecretArn :: string

record event_props =
  ad_RequestType :: request_type
  ad_ResourceProperties :: ad_resource_properties
  ad_PhysicalResourceId :: "string option"

text \<open>\<^verbatim>\<open>PhysicalResourceId\<close> and \<^verbatim>\<open>Data?.InstanceId\<close>.\<close>

record ad_response =
  ad_resp_PhysicalResourceId :: string
  ad_resp_InstanceId :: "string option"

text \<open>The parameters of \<^verbatim>\<open>RunInstancesCommand\<close> that are not constants.\<close>

record run_input =
  run_ImageId :: string
  run_InstanceType :: string
  run_KeyName :: "string option"
  run_SubnetId :: string
  run_SecurityGroupIds :: "string list"
  run_IamInstanceProfile :: string

text \<open>
  The commands sent to EC2, SSM and Secrets Manager. The waiter
  \<^verbatim>\<open>waitUntilInstanceRunning\<close> of the SDK is one remote interaction, with its
  \<^verbatim>\<open>maxWaitTime\<close>. \<open>SendCommandCommand\<close> carries \<^verbatim>\<open>InstanceIds\<close>,
  \<^verbatim>\<open>DocumentName\<close>, \<^verbatim>\<open>Parameters\<close> and \<^verbatim>\<open>TimeoutSeconds\<close>;
  \<open>GetCommandInvocationCommand\<close> carries \<^verbatim>\<open>CommandId\<close> and \<^verbatim>\<open>InstanceId\<close>;
  \<open>PutSecretValueCommand\<close> carries \<^verbatim>\<open>SecretId\<close> and \<^verbatim>\<open>SecretString\<close>.
\<close>

datatype ad_command =
    DescribeImagesCommand
  | RunInstancesCommand run_input
  | TerminateInstancesCommand "string list"
  | WaitUntilInstanceRunning "string list" nat
  | DescribeKeyPairsCommand "string option list"
  | CreateKeyPairCommand string
  | DescribeInstanceInformationCommand "string list"
  | SendCommandCommand "string list" string "(string \<times> string list) list" nat
  | GetCommandInvocationCommand string string
  | GetDocumentCommand string
  | CreateDocumentCommand string
  | GetSecretValueCommand string
  | PutSecretValueCommand string string

record image_info =
  CreationDate :: "string option"
  ImageId :: "string option"

record instance_info =
  InstanceId :: "string option"

record command_info =
  CommandId :: "string option"

text \<open>
  What the code reads of the outputs of these commands; an absent field is \<open>None\<close>.
  Of \<^verbatim>\<open>InstanceInformationList\<close> only the length is read.
\<close>

record ad_output =
  SecretString :: "string option"
  KeyMaterial :: "string option"
  Images :: "image_info list option"
  Instances :: "instance_info list option"
  InstanceInformationList :: "unit list option"
  Command :: "command_info option"
  Status :: "string option"

text \<open>
  The process environment, and the functions of the platform that the code calls:
  \<^verbatim>\<open>JSON.parse\<close> at the two places it is used (the key pair secret, of which
  \<^verbatim>\<open>KeyPairName\<close> and \<^verbatim>\<open>PrivateKey\<close> are read, and \<^verbatim>\<open>DNS_IPS\<close>),
  \<^verbatim>\<open>JSON.stringify\<close> of the key pair secret, \<^verbatim>\<open>Date.now()\<close> in decimal and
  \<^verbatim>\<open>String.prototype.localeCompare\<close>.
\<close>

record key_pair_data =
  KeyPairName :: "string option"
  PrivateKey :: "string option"

record platform =
  env_DOMAIN_NAME :: "string option"
  env_DNS_IPS :: "string option"
  env_INSTANCE_PROFILE_NAME :: "string option"
  env_SCRIPTS_BUCKET :: "string option"
  env_SETUP_SCRIPT_KEY :: "string option"
  env_AWS_REGION :: "string option"
  env_ADMIN_SECRET_ARN :: "string option"
  JSON_parse_key_pair :: "string \<Rightarrow> js_error + key_pair_data"
  JSON_parse_string_list :: "string \<Rightarrow> js_error + string list"
  JSON_stringify_key_pair :: "string \<Rightarrow> string option \<Rightarrow> string"
  Date_now :: string
  localeCompare :: "string \<Rightarrow> string \<Rightarrow> int"

text \<open>\<^verbatim>\<open>x ?? d\<close>\<close>

definition orElse :: "'a option \<Rightarrow> 'a \<Rightarrow> 'a" where
  "orElse x d = (case x of None \<Rightarrow> d | Some v \<Rightarrow> v)"

text \<open>How a template literal prints a variable that may be undefined.\<close>

definition printed :: "string option \<Rightarrow> string" where
  "printed x = orElse x ''undefined''"

text \<open>\<^verbatim>\<open>try { ... } catch { ... }\<close>: the handler runs in the world the body left.\<close>

definition try_catch ::
  "('w \<Rightarrow> ('e + 'a) \<times> 'w) \<Rightarrow> ('e \<Rightarrow> 'w \<Rightarrow> ('e + 'a) \<times> 'w) \<Rightarrow> 'w \<Rightarrow> ('e + 'a) \<times> 'w" where
  "try_catch body handle w = (case body w of (Inr v, w') \<Rightarrow> (Inr v, w') | (Inl e, w') \<Rightarrow> handle e w')"

definition getOrCreateKeyPair ::
  "platform \<Rightarrow> ('s, ad_command, ad_output) remote_api \<Rightarrow> string
     \<Rightarrow> ('s, ad_command) world \<Rightarrow> (js_error + string option \<times> string option) \<times> ('s, ad_command) world" where
  "getOrCreateKeyPair pf respond secretArn =
     try_catch
       (await (send respond (GetSecretValueCommand secretArn))
          (\<lambda>secret w.
             case JSON_parse_key_pair pf (orElse (SecretString secret) ''{}'') of
               Inl e \<Rightarrow> (Inl e, w)
             | Inr data \<Rightarrow>
                 await (send respond (DescribeKeyPairsCommand [KeyPairName data]))
                   (\<lambda>_ w. (Inr (KeyPairName data, PrivateKey data), w)) w))
       (\<lambda>_. let keyName = ''ad-automation-key-'' @ Date_now pf in
             await (send respond (CreateKeyPairCommand keyName))
               (\<lambda>kp. await (send respond
                               (PutSecretValueCommand secretArn
                                  (JSON_stringify_key_pair pf keyName (KeyMaterial kp))))
                        (\<lambda>_ w. (Inr (Some keyName, Some (orElse (KeyMaterial kp) [])), w))))"

text \<open>
  \<^verbatim>\<open>Array.prototype.sort\<close> with a comparator is stable: an insertion sort that puts
  an element before the first one it does not compare greater than.
\<close>

fun insert_by :: "('a \<Rightarrow> 'a \<Rightarrow> int) \<Rightarrow> 'a \<Rightarrow> 'a list \<Rightarrow> 'a list" where
  "insert_by cmp x [] = [x]"
| "insert_by cmp x (y # ys) = (if cmp x y \<le> 0 then x # y # ys else y # insert_by cmp x ys)"

definition sort_by :: "('a \<Rightarrow> 'a \<Rightarrow> int) \<Rightarrow> 'a list \<Rightarrow> 'a list" where
  "sort_by cmp xs = foldr (insert_by cmp) xs []"

definition no_ami_error :: js_error where
  "no_ami_error = \<lparr>err_name = Some ''Error'', err_retryable = False, err_message = ''No Windows AMI found''\<rparr>"

definition launchEC2Instance ::
  "platform \<Rightarrow> ('s, ad_command, ad_output) remote_api \<Rightarrow> string \<Rightarrow> string \<Rightarrow> string \<Rightarrow> string option
     \<Rightarrow> ('s, ad_command) world \<Rightarrow> (js_error + string) \<times> ('s, ad_command) world" where
  "launchEC2Instance pf respond subnetId securityGroupId instanceType keyName =
     await (send respond DescribeImagesCommand)
       (\<lambda>images.
          let amiId =
                (case Images images of
                   None \<Rightarrow> None
                 | Some imgs \<Rightarrow>
                     (case sort_by (\<lambda>a b. localeCompare pf (orElse (CreationDate b) []) (orElse (CreationDate a) []))
                             imgs of
                        [] \<Rightarrow> None
                      | img # _ \<Rightarrow> ImageId img))
          in case amiId of
               None \<Rightarrow> (\<lambda>w. (Inl no_ami_error, w))
             | Some ami \<Rightarrow>
                 if ami = [] then (\<lambda>w. (Inl no_ami_error, w))
                 else
                   await (send respond
                            (RunInstancesCommand
                               \<lparr>run_ImageId = ami,
                                run_InstanceType = instanceType,
                                run_KeyName = keyName,
                                run_SubnetId = subnetId,
                                run_SecurityGroupIds = [securityGroupId],
                                run_IamInstanceProfile = orElse (env_INSTANCE_PROFILE_NAME pf) []\<rparr>))
                     (\<lambda>result w.
                        (Inr (case Instances result of
                                None \<Rightarrow> []
                              | Some [] \<Rightarrow> []
                              | Some (inst # _) \<Rightarrow> orElse (InstanceId inst) []), w)))"

definition waitForInstance ::
  "('s, ad_command, ad_output) remote_api \<Rightarrow> string
     \<Rightarrow> ('s, ad_command) world \<Rightarrow> (js_error + unit) \<times> ('s, ad_command) world" where
  "waitForInstance respond instanceId =
     await (send respond (WaitUntilInstanceRunning [instanceId] 600))
       (\<lambda>_ w. (Inr (), sleep 120000 w))"

text \<open>The polling loop of \<^verbatim>\<open>waitForCommand\<close>, from a given value of \<^verbatim>\<open>i\<close>.\<close>

function waitForCommand_from ::
  "('s, ad_command, ad_output) remote_api \<Rightarrow> string \<Rightarrow> string \<Rightarrow> nat
     \<Rightarrow> ('s, ad_command) world \<Rightarrow> (js_error + unit) \<times> ('s, ad_command) world" where
  "waitForCommand_from respond instanceId commandId i w =
     (if i < 90 then
        (case send respond (GetCommandInvocationCommand commandId instanceId) w of
           (Inr result, w') \<Rightarrow>
             (let status = orElse (Status result) [] in
              if status \<in> set [''Success'', ''Failed'', ''Cancelled''] then (Inr (), w')
              else waitForCommand_from respond instanceId commandId (i + 1) (sleep 10000 w'))
         | (Inl e, w') \<Rightarrow>
             waitForCommand_from respond instanceId commandId (i + 1) (sleep 10000 w'))
      else (Inr (), w))"
  by pat_completeness auto
termination
  by (relation "measure (\<lambda>(respond, instanceId, commandId, i, w). 90 - i)") auto

declare waitForCommand_from.simps [simp del]

definition waitForCommand ::
  "('s, ad_command, ad_output) remote_api \<Rightarrow> string \<Rightarrow> string
     \<Rightarrow> ('s, ad_command) world \<Rightarrow> (js_error + unit) \<times> ('s, ad_command) world" where
  "waitForCommand respond instanceId commandId w =
     (if commandId = [] then (Inr (), w)
      else waitForCommand_from respond instanceId commandId 0 (sleep 30000 w))"

definition getAdminPassword ::
  "platform \<Rightarrow> ('s, ad_command, ad_output) remote_api
     \<Rightarrow> ('s, ad_command) world \<Rightarrow> (js_error + string) \<times> ('s, ad_command) world" where
  "getAdminPassword pf respond =
     await (send respond (GetSecretValueCommand (orElse (env_ADMIN_SECRET_ARN pf) [])))
       (\<lambda>secret w. (Inr (orElse (SecretString secret) []), w))"

text \<open>\<^verbatim>\<open>s.split(',')\<close>\<close>

fun split_on :: "char \<Rightarrow> string \<Rightarrow> string list" where
  "split_on c [] = [[]]"
| "split_on c (x # xs) =
     (if x = c then [] # split_on c xs
      else (case split_on c xs of [] \<Rightarrow> [[x]] | y # ys \<Rightarrow> (x # y) # ys))"

text \<open>
  A string between double quotes, and the path of the script on the instance (drive
  \<open>C:\<close>, a backslash, the file name).
\<close>

definition quoted :: "string \<Rightarrow> string" where
  "quoted s = [CHR 0x22] @ s @ [CHR 0x22]"

definition setup_script_path :: string where
  "setup_script_path = ''C:'' @ [CHR 0x5C] @ ''setup-ad-v9.ps1''"

definition joinDomain ::
  "platform \<Rightarrow> ('s, ad_command, ad_output) remote_api \<Rightarrow> string \<Rightarrow> string \<Rightarrow> string \<Rightarrow> string list
     \<Rightarrow> ('s, ad_command) world \<Rightarrow> (js_error + unit) \<times> ('s, ad_command) world" where
  "joinDomain pf respond instanceId directoryId domainName dnsIps =
     await (send respond (DescribeInstanceInformationCommand [instanceId]))
       (\<lambda>info.
          await (\<lambda>w. (Inr (), if orElse (InstanceInformationList info) [] = [] then sleep 120000 w else w))
            (\<lambda>_.
               let dnsIpAddresses =
                     (if length dnsIps = 1 \<and> CHR '','' \<in> set (hd dnsIps)
                      then split_on CHR '','' (hd dnsIps) else dnsIps);
                   docName = ''AWS-JoinDirectoryServiceDomain'';
                   customDoc = ''DraupnirMAD-JoinDirectoryServiceDomain''
               in await
                    (try_catch
                       (await (send respond (GetDocumentCommand docName)) (\<lambda>_ w. (Inr docName, w)))
                       (\<lambda>_. await
                               (try_catch
                                  (await (send respond (GetDocumentCommand customDoc)) (\<lambda>_ w. (Inr (), w)))
                                  (\<lambda>_. await (send respond (CreateDocumentCommand customDoc))
                                          (\<lambda>_ w. (Inr (), w))))
                               (\<lambda>_ w. (Inr customDoc, w))))
                    (\<lambda>useDoc.
                       await (send respond
                                (SendCommandCommand [instanceId] useDoc
                                   [(''directoryId'', [directoryId]),
                                    (''directoryName'', [domainName]),
                                    (''dnsIpAddresses'', dnsIpAddresses)] 900))
                         (\<lambda>joinCmd.
                            await (waitForCommand respond instanceId
                                     (orElse (case Command joinCmd of None \<Rightarrow> None | Some c \<Rightarrow> CommandId c) []))
                              (\<lambda>_.
                                 await (getAdminPassword pf respond)
                                   (\<lambda>adminPassword.
                                      await (send respond
                                               (SendCommandCommand [instanceId] ''AWS-RunPowerShellScript''
                                                  [(''commands'',
                                                    [''Read-S3Object -BucketName '' @ quoted (printed (env_SCRIPTS_BUCKET pf))
                                                       @ '' -Key '' @ quoted (printed (env_SETUP_SCRIPT_KEY pf))
                                                       @ '' -File '' @ quoted setup_script_path,
                                                     ''powershell.exe -ExecutionPolicy Bypass -File '' @ quoted setup_script_path
                                                       @ '' -DomainName '' @ quoted domainName
                                                       @ '' -AdminPassword '' @ quoted adminPassword
                                                       @ '' -Region '' @ quoted (orElse (env_AWS_REGION pf) ''us-east-1'')]),
                                                   (''executionTimeout'', [''3600''])] 3600))
                                        (\<lambda>runCmd.
                                           waitForCommand respond instanceId
                                             (orElse (case Command runCmd of None \<Rightarrow> None | Some c \<Rightarrow> CommandId c) []))))))))"

text \<open>\<^verbatim>\<open>instanceId?.startsWith('i-')\<close>\<close>

definition startsWith :: "string \<Rightarrow> string \<Rightarrow> bool" where
  "startsWith s p \<longleftrightarrow> take (length p) s = p"

definition ad_handler ::
  "platform \<Rightarrow> ('s, ad_command, ad_output) remote_api \<Rightarrow> event_props
     \<Rightarrow> ('s, ad_command) world \<Rightarrow> (js_error + ad_response) \<times> ('s, ad_command) world" where
  "ad_handler pf respond ev =
     (if ad_RequestType ev = Delete then
        await
          (case ad_PhysicalResourceId ev of
             None \<Rightarrow> (\<lambda>w. (Inr (), w))
           | Some instanceId \<Rightarrow>
               if startsWith instanceId ''i-''
               then await (send respond (TerminateInstancesCommand [instanceId])) (\<lambda>_ w. (Inr (), w))
               else (\<lambda>w. (Inr (), w)))
          (\<lambda>_ w. (Inr \<lparr>ad_resp_PhysicalResourceId = orElse (ad_PhysicalResourceId ev) ''deleted'',
                        ad_resp_InstanceId = None\<rparr>, w))
      else
        (let props = ad_ResourceProperties ev;
             domainName = orElse (env_DOMAIN_NAME pf) []
         in await (\<lambda>w. (JSON_parse_string_list pf (orElse (env_DNS_IPS pf) ''[]''), w))
              (\<lambda>dnsIps.
                 await (getOrCreateKeyPair pf respond (KeyPairSecretArn props))
                   (\<lambda>keyPairInfo.
                      await (launchEC2Instance pf respond (SubnetId props) (SecurityGroupId props)
                               (InstanceType props) (fst keyPairInfo))
                        (\<lambda>instanceId.
                           await (waitForInstance respond instanceId)
                             (\<lambda>_. await (joinDomain pf respond instanceId (ad_DirectoryId props) domainName dnsIps)
                                     (\<lambda>_ w. (Inr \<lparr>ad_resp_PhysicalResourceId = instanceId,
                                                   ad_resp_InstanceId = Some instanceId\<rparr>, w))))))))"

section \<open>Vocabulary of the statements\<close>

text \<open>
  The classifier of \<^verbatim>\<open>withRetry\<close>: an error is fatal when the loop rethrows it at
  once, that is when \<^verbatim>\<open>$retryable\<close> is not set and the name is neither
  \<^verbatim>\<open>ThrottlingException\<close> nor \<^verbatim>\<open>InternalFailure\<close>.
\<close>

definition is_fatal :: "js_error \<Rightarrow> bool" where
  "is_fatal err \<longleftrightarrow>
     \<not> err_retryable err \<and> code_of err \<noteq> ''ThrottlingException'' \<and> code_of err \<noteq> ''InternalFailure''"

text \<open>
  The answer of the remote side to the \<open>n\<close>-th of consecutive sends of one command,
  counted from 0, starting in state \<open>s\<close>.
\<close>

fun answer_at :: "('s, 'c, 'r) remote_api \<Rightarrow> 'c \<Rightarrow> 's \<Rightarrow> nat \<Rightarrow> js_error + 'r" where
  "answer_at respond cmd s 0 = fst (respond s cmd)"
| "answer_at respond cmd s (Suc n) = answer_at respond cmd (snd (respond s cmd)) n"

text \<open>
  A complete description of one run of the retry loop on a sent command, started at
  attempt \<open>a\<close> in world \<open>w\<close> and ended with outcome \<open>r\<close> in world \<open>w'\<close>: \<open>errs\<close>
  are the errors that were answered and retried, in order.
\<close>

definition retry_run ::
  "('s, 'c, 'r) remote_api \<Rightarrow> 'c \<Rightarrow> nat \<Rightarrow> int \<Rightarrow> nat \<Rightarrow> js_error option \<Rightarrow> ('s, 'c) world
     \<Rightarrow> (js_error option + 'r) \<Rightarrow> ('s, 'c) world \<Rightarrow> js_error list \<Rightarrow> bool" where
  "retry_run respond cmd m b a le w r w' errs \<longleftrightarrow>
     length errs \<le> m - a \<and>
     (\<forall>n < length errs. answer_at respond cmd (remote w) n = Inl (errs ! n) \<and> \<not> is_fatal (errs ! n)) \<and>
     sleeps w' = sleeps w @
        map (\<lambda>n. min (b * 2 ^ (a + n)) 30000
                  + (if code_of (errs ! n) = ''ThrottlingException'' then 5000 else 0)) [0..<length errs] \<and>
     (if length errs < m - a
      then calls w' = calls w @ replicate (Suc (length errs)) cmd \<and>
           (case answer_at respond cmd (remote w) (length errs) of
              Inr v \<Rightarrow> r = Inr v
            | Inl e \<Rightarrow> is_fatal e \<and> r = Inl (Some e))
      else calls w' = calls w @ replicate (length errs) cmd \<and>
           r = Inl (if errs = [] then le else Some (last errs)))"

text \<open>The commands of the QuickSight client that change the remote side.\<close>

fun mutating :: "qs_command \<Rightarrow> bool" where
  "mutating (DescribeAccountSubscriptionCommand a) = False"
| "mutating (ListNamespacesCommand a) = False"
| "mutating (CreateAccountSubscriptionCommand i) = True"
| "mutating (DeleteAccountSubscriptionCommand a) = True"
| "mutating (UpdateAccountSettingsCommand a n e) = True"

text \<open>The command that \<open>createSubscription\<close> sends for given properties.\<close>

definition create_command :: "resource_properties \<Rightarrow> qs_command" where
  "create_command props =
     CreateAccountSubscriptionCommand
       \<lparr>in_AwsAccountId = AwsAccountId props,
        in_AccountName = AccountName props,
        in_Edition = Edition props,
        in_AuthenticationMethod = AuthenticationMethod props,
        in_ActiveDirectoryName = ActiveDirectoryName props,
        in_AdminGroup = [AdminGroup props],
        in_AuthorGroup = [AdminGroup props],
        in_ReaderGroup = [AdminGroup props],
        in_NotificationEmail = NotificationEmail props\<rparr>"

text \<open>\<^verbatim>\<open>response.AccountInfo?.AccountSubscriptionStatus\<close>\<close>

definition status_of :: "qs_output \<Rightarrow> string option" where
  "status_of out = (case AccountInfo out of None \<Rightarrow> None | Some info \<Rightarrow> AccountSubscriptionStatus info)"

text \<open>
  An answer to a poll of \<open>waitForCommand\<close> that ends the polling: a status among
  \<open>Success\<close>, \<open>Failed\<close> and \<open>Cancelled\<close>. An error is not terminal.
\<close>

definition terminal_answer :: "js_error + ad_output \<Rightarrow> bool" where
  "terminal_answer x =
     (case x of Inl e \<Rightarrow> False
      | Inr result \<Rightarrow> orElse (Status result) [] \<in> set [''Success'', ''Failed'', ''Cancelled''])"

text \<open>
  The commands sent after the launch whose error the code does not catch: the waiter,
  and the commands that \<open>joinDomain\<close> sends outside a \<^verbatim>\<open>try\<close> block or inside the
  last \<^verbatim>\<open>catch\<close> block. (The errors of \<open>GetDocumentCommand\<close> and of
  \<open>GetCommandInvocationCommand\<close> are caught.)
\<close>

fun propagating :: "ad_command \<Rightarrow> bool" where
  "propagating (WaitUntilInstanceRunning ids maxWaitTime) = True"
| "propagating (DescribeInstanceInformationCommand ids) = True"
| "propagating (CreateDocumentCommand name) = True"
| "propagating (SendCommandCommand ids doc params timeout) = True"
| "propagating (GetSecretValueCommand secretId) = True"
| "propagating _ = False"

text \<open>
  Three properties of a step, used to go through the steps after the launch one by one:
  it only appends to the commands sent; when it throws, what it throws is the answer to
  the last command it sent, which is one of the above; it never throws.
\<close>

definition appends :: "(('s, 'c) world \<Rightarrow> 'r \<times> ('s, 'c) world) \<Rightarrow> bool" where
  "appends m \<longleftrightarrow> (\<forall>w. \<exists>cs. calls (snd (m w)) = calls w @ cs)"

definition throws_last ::
  "('s, ad_command, ad_output) remote_api
     \<Rightarrow> (('s, ad_command) world \<Rightarrow> (js_error + 'a) \<times> ('s, ad_command) world) \<Rightarrow> bool" where
  "throws_last respond m \<longleftrightarrow>
     (\<forall>w. \<exists>cs. calls (snd (m w)) = calls w @ cs \<and>
        (\<forall>e. fst (m w) = Inl e \<longrightarrow>
           cs \<noteq> [] \<and> propagating (last cs) \<and>
           (\<exists>s. respond s (last cs) = (Inl e, remote (snd (m w))))))"

definition never_throws :: "('w \<Rightarrow> ('e + 'a) \<times> 'w) \<Rightarrow> bool" where
  "never_throws m \<longleftrightarrow> (\<forall>w. \<exists>v. fst (m w) = Inr v)"

section \<open>Example inputs\<close>

definition throttling_error :: js_error where
  "throttling_error = \<lparr>err_name = Some ''ThrottlingException'', err_retryable = False,
                       err_message = ''Rate exceeded''\<rparr>"

definition internal_failure :: js_error where
  "internal_failure = \<lparr>err_name = Some ''InternalFailure'', err_retryable = False,
                       err_message = ''Internal failure''\<rparr>"

definition not_found_error :: js_error where
  "not_found_error = \<lparr>err_name = Some ''ResourceNotFoundException'', err_retryable = False,
                      err_message = ''Not found''\<rparr>"

text \<open>A remote side that answers the \<open>n\<close>-th command it receives with \<open>answers n\<close>.\<close>

definition scripted :: "(nat \<Rightarrow> js_error + 'r) \<Rightarrow> (nat, 'c, 'r) remote_api" where
  "scripted answers n cmd = (answers n, Suc n)"

text \<open>A remote side without state, whose answer depends on the command only.\<close>

definition respond_by :: "('c \<Rightarrow> js_error + 'r) \<Rightarrow> (unit, 'c, 'r) remote_api" where
  "respond_by f s cmd = (f cmd, s)"

definition w0 :: "(nat, 'c) world" where
  "w0 = \<lparr>remote = 0, calls = [], sleeps = []\<rparr>"

definition u0 :: "(unit, 'c) world" where
  "u0 = \<lparr>remote = (), calls = [], sleeps = []\<rparr>"

definition account :: string where
  "account = ''123456789012''"

definition always_throttled :: "(nat, qs_command, qs_output) remote_api" where
  "always_throttled = scripted (\<lambda>n. Inl throttling_error)"

definition mixed_errors :: "(nat, qs_command, qs_output) remote_api" where
  "mixed_errors = scripted (\<lambda>n. if n = 0 then Inl throttling_error else Inl internal_failure)"

definition not_found_once :: "(nat, qs_command, qs_output) remote_api" where
  "not_found_once = scripted (\<lambda>n. if n = 0 then Inl not_found_error else Inr \<lparr>AccountInfo = None, Namespaces = None\<rparr>)"

definition example_props :: resource_properties where
  "example_props =
     stack_properties
       [''quickSightAdminGroup'' \<mapsto> ''Admins'', ''quickSightAuthorGroup'' \<mapsto> ''Authors'',
        ''quickSightReaderGroup'' \<mapsto> ''Readers'']
       account ''managed-ad'' ''admin@example.com'' ''d-1234567890''"

definition create_event :: event where
  "create_event = \<lparr>RequestType = Create, ResourceProperties = example_props,
                    OldResourceProperties = None, PhysicalResourceId = None\<rparr>"

definition status_output :: "string \<Rightarrow> qs_output" where
  "status_output st = \<lparr>AccountInfo = Some \<lparr>AccountSubscriptionStatus = Some st\<rparr>, Namespaces = None\<rparr>"


definition empty_output :: qs_output where
  "empty_output = \<lparr>AccountInfo = None, Namespaces = None\<rparr>"

definition stuck_remote :: "(unit, qs_command, qs_output) remote_api" where
  "stuck_remote =
     respond_by (\<lambda>cmd. case cmd of
                    DescribeAccountSubscriptionCommand a \<Rightarrow> Inr (status_output ''UNSUBSCRIBE_FAILED'')
                  | _ \<Rightarrow> Inr empty_output)"

definition stuck_and_gone_remote :: "(unit, qs_command, qs_output) remote_api" where
  "stuck_and_gone_remote =
     respond_by (\<lambda>cmd. case cmd of
                    DescribeAccountSubscriptionCommand a \<Rightarrow> Inr (status_output ''UNSUBSCRIBE_FAILED'')
                  | UpdateAccountSettingsCommand a n e \<Rightarrow> Inl not_found_error
                  | _ \<Rightarrow> Inr empty_output)"



definition access_denied :: js_error where
  "access_denied = \<lparr>err_name = Some ''AccessDeniedException'', err_retryable = False,
                    err_message = ''Access denied''\<rparr>"



definition fresh_account :: "(unit, qs_command, qs_output) remote_api" where
  "fresh_account =
     respond_by (\<lambda>cmd. case cmd of
                    DescribeAccountSubscriptionCommand a \<Rightarrow> Inl not_found_error
                  | _ \<Rightarrow> Inr empty_output)"

text \<open>
  Inputs for the compute workflow. The functions of the platform are stand-ins that are
  exact on the inputs used here: the secret holds no key pair yet, \<^verbatim>\<open>DNS_IPS\<close> is
  not set. The remote side knows no key pair, offers two images, launches the instance
  \<open>i-0123\<close>, and reports every command as \<open>Failed\<close>; what the waiter and the
  dispatch of a command answer is a parameter.
\<close>

definition empty_ad_output :: ad_output where
  "empty_ad_output = \<lparr>SecretString = None, KeyMaterial = None, Images = None, Instances = None,
                       InstanceInformationList = None, Command = None, Status = None\<rparr>"

definition never_done :: "(unit, ad_command, ad_output) remote_api" where
  "never_done = respond_by (\<lambda>cmd. Inr (empty_ad_output\<lparr>Status := Some ''InProgress''\<rparr>))"

definition failed_at_once :: "(unit, ad_command, ad_output) remote_api" where
  "failed_at_once = respond_by (\<lambda>cmd. Inr (empty_ad_output\<lparr>Status := Some ''Failed''\<rparr>))"

definition syntax_error :: js_error where
  "syntax_error = \<lparr>err_name = Some ''SyntaxError'', err_retryable = False,
                   err_message = ''Unexpected token''\<rparr>"

fun compare_strings :: "string \<Rightarrow> string \<Rightarrow> int" where
  "compare_strings [] [] = 0"
| "compare_strings [] (y # ys) = - 1"
| "compare_strings (x # xs) [] = 1"
| "compare_strings (x # xs) (y # ys) =
     (if x = y then compare_strings xs ys
      else if (of_char x :: nat) < of_char y then - 1 else 1)"

definition example_platform :: platform where
  "example_platform =
     \<lparr>env_DOMAIN_NAME = Some ''corp.example.com'',
      env_DNS_IPS = None,
      env_INSTANCE_PROFILE_NAME = Some ''ad-automation-profile'',
      env_SCRIPTS_BUCKET = Some ''scripts-bucket'',
      env_SETUP_SCRIPT_KEY = Some ''setup-ad-v9.ps1'',
      env_AWS_REGION = Some ''us-east-1'',
      env_ADMIN_SECRET_ARN = Some ''arn:admin-secret'',
      JSON_parse_key_pair =
        (\<lambda>s. if s = ''{}'' then Inr \<lparr>KeyPairName = None, PrivateKey = None\<rparr> else Inl syntax_error),
      JSON_parse_string_list = (\<lambda>s. if s = ''[]'' then Inr [] else Inl syntax_error),
      JSON_stringify_key_pair = (\<lambda>keyName keyMaterial. keyName @ '':'' @ orElse keyMaterial []),
      Date_now = ''1700000000000'',
      localeCompare = compare_strings\<rparr>"

definition invalid_key_pair :: js_error where
  "invalid_key_pair = \<lparr>err_name = Some ''InvalidKeyPair.NotFound'', err_retryable = False,
                       err_message = ''The key pair does not exist''\<rparr>"

definition waiter_timeout :: js_error where
  "waiter_timeout = \<lparr>err_name = Some ''TimeoutError'', err_retryable = False,
                     err_message = ''Waiter has timed out''\<rparr>"

definition compute_remote ::
  "js_error + ad_output \<Rightarrow> js_error + ad_output \<Rightarrow> (unit, ad_command, ad_output) remote_api" where
  "compute_remote waiter_answer send_answer =
     respond_by (\<lambda>cmd. case cmd of
                    DescribeKeyPairsCommand names \<Rightarrow> Inl invalid_key_pair
                  | CreateKeyPairCommand keyName \<Rightarrow> Inr (empty_ad_output\<lparr>KeyMaterial := Some ''pem''\<rparr>)
                  | DescribeImagesCommand \<Rightarrow>
                      Inr (empty_ad_output\<lparr>Images :=
                             Some [\<lparr>CreationDate = Some ''2024-01-10'', ImageId = Some ''ami-old''\<rparr>,
                                   \<lparr>CreationDate = Some ''2024-03-12'', ImageId = Some ''ami-new''\<rparr>]\<rparr>)
                  | RunInstancesCommand input \<Rightarrow>
                      Inr (empty_ad_output\<lparr>Instances := Some [\<lparr>InstanceId = Some ''i-0123''\<rparr>]\<rparr>)
                  | WaitUntilInstanceRunning ids maxWaitTime \<Rightarrow> waiter_answer
                  | DescribeInstanceInformationCommand ids \<Rightarrow>
                      Inr (empty_ad_output\<lparr>InstanceInformationList := Some [()]\<rparr>)
                  | SendCommandCommand ids doc params timeout \<Rightarrow> send_answer
                  | GetCommandInvocationCommand commandId instanceId \<Rightarrow>
                      Inr (empty_ad_output\<lparr>Status := Some ''Failed''\<rparr>)
                  | _ \<Rightarrow> Inr empty_ad_output)"

definition command_sent :: ad_output where
  "command_sent = empty_ad_output\<lparr>Command := Some \<lparr>CommandId = Some ''cmd-1''\<rparr>\<rparr>"

definition invalid_instance :: js_error where
  "invalid_instance = \<lparr>err_name = Some ''InvalidInstanceId'', err_retryable = False,
                       err_message = ''Instances not in a valid state for account''\<rparr>"

definition example_ad_properties :: ad_resource_properties where
  "example_ad_properties =
     \<lparr>ad_DirectoryId = ''d-1234567890'', SecurityGroupId = ''sg-1'', SubnetId = ''subnet-1'',
      InstanceType = ''m5.large'', KeyPairSecretArn = ''arn:key-pair-secret'',
      AdminSecretArn = ''arn:admin-secret''\<rparr>"

definition ad_create_event :: event_props where
  "ad_create_event = \<lparr>ad_RequestType = Create, ad_ResourceProperties = example_ad_properties,
                       ad_PhysicalResourceId = None\<rparr>"

definition ad_delete_event :: "string option \<Rightarrow> event_props" where
  "ad_delete_event previous = \<lparr>ad_RequestType = Delete, ad_ResourceProperties = example_ad_properties,
                                ad_PhysicalResourceId = previous\<rparr>"

definition after_key_pair :: "(unit, ad_command) world" where
  "after_key_pair =
     u0\<lparr>calls := [GetSecretValueCommand ''arn:key-pair-secret'',
                   DescribeKeyPairsCommand [None],
                   CreateKeyPairCommand ''ad-automation-key-1700000000000'',
                   PutSecretValueCommand ''arn:key-pair-secret'' ''ad-automation-key-1700000000000:pem'']\<rparr>"

definition launch_command :: ad_command where
  "launch_command =
     RunInstancesCommand
       \<lparr>run_ImageId = ''ami-new'', run_InstanceType = ''m5.large'',
        run_KeyName = Some ''ad-automation-key-1700000000000'', run_SubnetId = ''subnet-1'',
        run_SecurityGroupIds = [''sg-1''], run_IamInstanceProfile = ''ad-automation-profile''\<rparr>"

definition after_launch :: "(unit, ad_command) world" where
  "after_launch = after_key_pair\<lparr>calls := calls after_key_pair @ [DescribeImagesCommand, launch_command]\<rparr>"

definition wait_command :: ad_command where
  "wait_command = WaitUntilInstanceRunning [''i-0123''] 600"

definition after_wait :: "(unit, ad_command) world" where
  "after_wait = after_launch\<lparr>calls := calls after_launch @ [wait_command], sleeps := [120000]\<rparr>"

definition stuck_delete_denied :: "(unit, qs_command, qs_output) remote_api" where
  "stuck_delete_denied =
     respond_by (\<lambda>cmd. case cmd of
                    DescribeAccountSubscriptionCommand a \<Rightarrow> Inr (status_output ''UNSUBSCRIBE_FAILED'')
                  | DeleteAccountSubscriptionCommand a \<Rightarrow> Inl access_denied
                  | _ \<Rightarrow> Inr empty_output)"


definition unanswered_polls :: "(unit, ad_command, ad_output) remote_api" where
  "unanswered_polls =
     respond_by (\<lambda>cmd. case cmd of
                    GetDocumentCommand name \<Rightarrow> Inl access_denied
                  | GetCommandInvocationCommand commandId instanceId \<Rightarrow> Inl throttling_error
                  | _ \<Rightarrow> fst (compute_remote (Inr empty_ad_output) (Inr command_sent) () cmd))"

section \<open>Basic facts about the world\<close>

lemma sleep_calls [simp]: "calls (sleep d w) = calls w"
  and sleep_remote [simp]: "remote (sleep d w) = remote w"
  and sleep_sleeps [simp]: "sleeps (sleep d w) = sleeps w @ [d]"
  by (simp_all add: sleep_def)

lemma send_calls [simp]: "calls (snd (send respond cmd w)) = calls w @ [cmd]"
  and send_sleeps [simp]: "sleeps (snd (send respond cmd w)) = sleeps w"
  and send_remote [simp]: "remote (snd (send respond cmd w)) = snd (respond (remote w) cmd)"
  and send_fst [simp]: "fst (send respond cmd w) = fst (respond (remote w) cmd)"
  by (simp_all add: send_def split: prod.splits)

lemma await_Inl: "m w = (Inl e, w') \<Longrightarrow> await m f w = (Inl e, w')"
  by (simp add: await_def)

lemma await_Inr: "m w = (Inr v, w') \<Longrightarrow> await m f w = f v w'"
  by (simp add: await_def)

section \<open>The retry loop, run by run\<close>

lemma withRetry_from_stop: "\<not> a < m \<Longrightarrow> withRetry_from fn m b a le w = (Inl le, w)"
  by (simp add: withRetry_from.simps)

lemma withRetry_from_step:
  "a < m \<Longrightarrow> withRetry_from fn m b a le w =
     (case fn w of
        (Inr v, w1) \<Rightarrow> (Inr v, w1)
      | (Inl err, w1) \<Rightarrow>
          if is_fatal err then (Inl (Some err), w1)
          else withRetry_from fn m b (Suc a) (Some err)
                 (sleep (min (b * 2 ^ a) 30000 + (if code_of err = ''ThrottlingException'' then 5000 else 0)) w1))"
  by (subst withRetry_from.simps) (simp add: is_fatal_def Let_def split: prod.splits sum.splits)

lemma map_upt_Suc_shift: "map f [0..<Suc n] = f 0 # map (\<lambda>i. f (Suc i)) [0..<n]"
  by (simp add: map_upt_Suc del: upt_Suc)

lemma withRetry_from_send:
  "\<exists>errs. retry_run respond cmd m b a le w
            (fst (withRetry_from (send respond cmd) m b a le w))
            (snd (withRetry_from (send respond cmd) m b a le w)) errs"
proof (induction "m - a" arbitrary: a le w)
  case 0
  then have "retry_run respond cmd m b a le w
            (fst (withRetry_from (send respond cmd) m b a le w))
            (snd (withRetry_from (send respond cmd) m b a le w)) []"
    by (simp add: withRetry_from_stop retry_run_def)
  then show ?case ..
next
  case (Suc d)
  then have lt: "a < m" and d: "d = m - Suc a" by simp_all
  obtain x s1 where rs: "respond (remote w) cmd = (x, s1)" by (cases "respond (remote w) cmd")
  define w1 where "w1 = w\<lparr>remote := s1, calls := calls w @ [cmd]\<rparr>"
  have sw: "send respond cmd w = (x, w1)" by (simp add: send_def rs w1_def)
  have a0: "answer_at respond cmd (remote w) 0 = x" by (simp add: rs)
  let ?R = "withRetry_from (send respond cmd) m b a le w"
  show ?case
  proof (cases x)
    case (Inr v)
    then have "?R = (Inr v, w1)" using lt sw by (simp add: withRetry_from_step)
    then have "retry_run respond cmd m b a le w (fst ?R) (snd ?R) []"
      using lt a0 Inr by (simp add: retry_run_def w1_def)
    then show ?thesis ..
  next
    case (Inl e)
    show ?thesis
    proof (cases "is_fatal e")
      case True
      then have "?R = (Inl (Some e), w1)" using lt sw Inl by (simp add: withRetry_from_step)
      then have "retry_run respond cmd m b a le w (fst ?R) (snd ?R) []"
        using lt a0 Inl True by (simp add: retry_run_def w1_def)
      then show ?thesis ..
    next
      case False
      define dl where "dl = min (b * 2 ^ a) 30000 + (if code_of e = ''ThrottlingException'' then 5000 else 0)"
      define w2 where "w2 = sleep dl w1"
      let ?R2 = "withRetry_from (send respond cmd) m b (Suc a) (Some e) w2"
      have RR: "?R = ?R2" using lt sw Inl False by (simp add: withRetry_from_step w2_def dl_def)
      have rem: "remote w2 = s1" and cw2: "calls w2 = calls w @ [cmd]"
        and sw2: "sleeps w2 = sleeps w @ [dl]" by (simp_all add: w1_def w2_def)
      from Suc.hyps(1) [OF d, of "Some e" w2]
      obtain errs where run: "retry_run respond cmd m b (Suc a) (Some e) w2 (fst ?R2) (snd ?R2) errs"
        by blast
      have shift: "answer_at respond cmd (remote w) (Suc n) = answer_at respond cmd s1 n" for n
        by (simp add: rs)
      have run_len: "length errs \<le> m - Suc a"
        and run_obs: "\<forall>n < length errs. answer_at respond cmd (remote w2) n = Inl (errs ! n) \<and> \<not> is_fatal (errs ! n)"
        and run_sl: "sleeps (snd ?R2) = sleeps w2 @
               map (\<lambda>n. min (b * 2 ^ (Suc a + n)) 30000
                  + (if code_of (errs ! n) = ''ThrottlingException'' then 5000 else 0)) [0..<length errs]"
        and run_fin: "(if length errs < m - Suc a
      then calls (snd ?R2) = calls w2 @ replicate (Suc (length errs)) cmd \<and>
           (case answer_at respond cmd (remote w2) (length errs) of
              Inr v \<Rightarrow> fst ?R2 = Inr v
            | Inl e \<Rightarrow> is_fatal e \<and> fst ?R2 = Inl (Some e))
      else calls (snd ?R2) = calls w2 @ replicate (length errs) cmd \<and>
           fst ?R2 = Inl (if errs = [] then Some e else Some (last errs)))"
        using run unfolding retry_run_def by blast+
      have len: "length (e # errs) \<le> m - a" using run_len lt by simp
      have obs: "\<forall>n < length (e # errs).
          answer_at respond cmd (remote w) n = Inl ((e # errs) ! n) \<and> \<not> is_fatal ((e # errs) ! n)"
      proof (intro allI impI)
        fix n assume n: "n < length (e # errs)"
        show "answer_at respond cmd (remote w) n = Inl ((e # errs) ! n) \<and> \<not> is_fatal ((e # errs) ! n)"
        proof (cases n)
          case 0
          then show ?thesis using a0 Inl False by simp
        next
          case (Suc n')
          then have "n' < length errs" using n by simp
          then show ?thesis using run_obs Suc shift rem by simp
        qed
      qed
      have sl: "sleeps (snd ?R) = sleeps w @
        map (\<lambda>n. min (b * 2 ^ (a + n)) 30000
                  + (if code_of ((e # errs) ! n) = ''ThrottlingException'' then 5000 else 0))
            [0..<length (e # errs)]"
        unfolding RR run_sl sw2
        by (simp add: map_upt_Suc_shift dl_def del: upt_Suc)
      have fin: "(if length (e # errs) < m - a
        then calls (snd ?R) = calls w @ replicate (Suc (length (e # errs))) cmd \<and>
           (case answer_at respond cmd (remote w) (length (e # errs)) of
              Inr v \<Rightarrow> fst ?R = Inr v
            | Inl e' \<Rightarrow> is_fatal e' \<and> fst ?R = Inl (Some e'))
        else calls (snd ?R) = calls w @ replicate (length (e # errs)) cmd \<and>
           fst ?R = Inl (if e # errs = [] then le else Some (last (e # errs))))"
      proof (cases "length errs < m - Suc a")
        case True
        then have "length (e # errs) < m - a" by simp
        moreover have "calls (snd ?R2) = calls w @ replicate (Suc (length (e # errs))) cmd"
          using run_fin True by (simp add: cw2 replicate_app_Cons_same)
        moreover have "(case answer_at respond cmd (remote w) (length (e # errs)) of
              Inr v \<Rightarrow> fst ?R2 = Inr v
            | Inl e' \<Rightarrow> is_fatal e' \<and> fst ?R2 = Inl (Some e'))"
          using run_fin True by (simp add: rem rs)
        ultimately show ?thesis unfolding RR by simp
      next
        case F: False
        then have "\<not> length (e # errs) < m - a" using lt by simp
        moreover have "calls (snd ?R2) = calls w @ replicate (length (e # errs)) cmd"
          using run_fin F by (simp add: cw2 replicate_app_Cons_same)
        moreover have "fst ?R2 = Inl (Some (last (e # errs)))"
          using run_fin F by simp
        ultimately show ?thesis unfolding RR by simp
      qed
      have "retry_run respond cmd m b a le w (fst ?R) (snd ?R) (e # errs)"
        unfolding retry_run_def using len obs sl fin by blast
      then show ?thesis ..
    qed
  qed
qed

lemma withRetry_send:
  "\<exists>errs. retry_run respond cmd m b 0 None w
            (fst (withRetry (send respond cmd) name m b w))
            (snd (withRetry (send respond cmd) name m b w)) errs"
  unfolding withRetry_def by (rule withRetry_from_send)

lemma backoff_mono:
  fixes b :: int
  assumes "0 \<le> b" "i \<le> j"
  shows "min (b * 2 ^ i) 30000 \<le> min (b * 2 ^ j) 30000"
proof -
  have "(2::int) ^ i \<le> 2 ^ j" using assms(2) by (simp add: power_increasing)
  then have "b * 2 ^ i \<le> b * 2 ^ j" using assms(1) by (rule mult_left_mono)
  then show ?thesis by simp
qed

lemma sorted_map_upt:
  fixes f :: "nat \<Rightarrow> int"
  assumes "\<And>i j. i \<le> j \<Longrightarrow> j < k \<Longrightarrow> f i \<le> f j"
  shows "sorted (map f [0..<k])"
  using assms by (simp add: sorted_iff_nth_mono)

section \<open>The backoff retrier: delays\<close>

text \<open>
  Claim C1, as amended. In every run of \<open>withRetry\<close> on a sent command, let \<open>errs\<close> be
  the failures that the run retried: the answers to the attempts \<open>0\<close>, \<open>1\<close>, ... as
  long as they are errors that are not fatal, up to \<open>maxRetries\<close> of them (so the run
  stops at the first answer that is a success or a fatal error, or after \<open>maxRetries\<close>
  attempts). After the failure of attempt \<open>n\<close> the run sleeps
  \<open>min (baseDelay * 2 ^ n) 30000\<close>, plus \<open>5000\<close> when the error of that attempt is a
  \<open>ThrottlingException\<close>; these are all its delays, in this order. For a base delay
  that is not negative, the delays of a run are non-decreasing when its errors are all
  throttling errors or all other errors. (Across a throttling error followed by another
  error the delay can decrease, see the counterexample.)
\<close>

theorem withRetry_delays:
  "\<exists>errs ds.
      length errs \<le> maxRetries \<and>
      (\<forall>n < length errs. answer_at respond cmd (remote w) n = Inl (errs ! n) \<and> \<not> is_fatal (errs ! n)) \<and>
      (length errs < maxRetries \<longrightarrow>
         (case answer_at respond cmd (remote w) (length errs) of Inr v \<Rightarrow> True | Inl e \<Rightarrow> is_fatal e)) \<and>
      ds = map (\<lambda>n. min (baseDelay * 2 ^ n) 30000
                     + (if code_of (errs ! n) = ''ThrottlingException'' then 5000 else 0))
               [0..<length errs] \<and>
      sleeps (snd (withRetry (send respond cmd) name maxRetries baseDelay w)) = sleeps w @ ds \<and>
      (0 \<le> baseDelay \<longrightarrow>
         (\<forall>n < length errs. code_of (errs ! n) = ''ThrottlingException'') \<or>
         (\<forall>n < length errs. code_of (errs ! n) \<noteq> ''ThrottlingException'') \<longrightarrow>
         sorted ds)"
proof -
  obtain errs where run: "retry_run respond cmd maxRetries baseDelay 0 None w
            (fst (withRetry (send respond cmd) name maxRetries baseDelay w))
            (snd (withRetry (send respond cmd) name maxRetries baseDelay w)) errs"
    using withRetry_send [of respond cmd maxRetries baseDelay w name] by (elim exE)
  define f where "f = (\<lambda>n. min (baseDelay * 2 ^ n) 30000
                     + (if code_of (errs ! n) = ''ThrottlingException'' then 5000 else (0::int)))"
  define ds where "ds = map f [0..<length errs]"
  have 1: "length errs \<le> maxRetries"
    and 2: "\<forall>n < length errs. answer_at respond cmd (remote w) n = Inl (errs ! n) \<and> \<not> is_fatal (errs ! n)"
    and 3: "sleeps (snd (withRetry (send respond cmd) name maxRetries baseDelay w)) = sleeps w @ ds"
    using run by (simp_all add: retry_run_def ds_def f_def)
  have 5: "case answer_at respond cmd (remote w) (length errs) of Inr v \<Rightarrow> True | Inl e \<Rightarrow> is_fatal e"
    if "length errs < maxRetries"
    using run that unfolding retry_run_def by (auto split: sum.splits)
  have 4: "sorted ds"
    if b: "0 \<le> baseDelay"
      and same: "(\<forall>n < length errs. code_of (errs ! n) = ''ThrottlingException'') \<or>
         (\<forall>n < length errs. code_of (errs ! n) \<noteq> ''ThrottlingException'')"
    unfolding ds_def
  proof (rule sorted_map_upt)
    fix i j assume ij: "i \<le> j" "j < length errs"
    then have "(code_of (errs ! i) = ''ThrottlingException'') = (code_of (errs ! j) = ''ThrottlingException'')"
      using same by auto
    then show "f i \<le> f j" using backoff_mono [OF b ij(1)] by (simp add: f_def)
  qed
  show ?thesis
    using 1 2 3 4 5 unfolding ds_def f_def by blast
qed

theorem withRetry_delays_witness:
  "(0::int) \<le> 2000 \<and>
   sleeps (snd (withRetry (send always_throttled (DescribeAccountSubscriptionCommand account))
                  ''describeAccountSubscription'' 5 2000 w0)) = [7000, 9000, 13000, 21000, 35000] \<and>
   sorted (sleeps (snd (withRetry (send always_throttled (DescribeAccountSubscriptionCommand account))
                  ''describeAccountSubscription'' 5 2000 w0)))"
proof -
  have e: "sleeps (snd (withRetry (send always_throttled (DescribeAccountSubscriptionCommand account))
                  ''describeAccountSubscription'' 5 2000 w0)) = [7000, 9000, 13000, 21000, 35000]"
    by code_simp
  show ?thesis
    using withRetry_delays [where maxRetries = 5 and respond = always_throttled
        and cmd = "DescribeAccountSubscriptionCommand account" and w = w0 and baseDelay = 2000
        and name = "''describeAccountSubscription''"]
    by (simp add: e)
qed

text \<open>
  The claim as stated fails: a throttling error at attempt 0 and an internal failure at
  attempt 1 give the delays 7000 and 4000, both below the cap of 30000.
\<close>

theorem withRetry_delays_counterexample:
  "sleeps (snd (withRetry (send mixed_errors (DescribeAccountSubscriptionCommand account))
                  ''describeAccountSubscription'' 2 2000 w0)) = [7000, 4000] \<and>
   \<not> sorted (sleeps (snd (withRetry (send mixed_errors (DescribeAccountSubscriptionCommand account))
                  ''describeAccountSubscription'' 2 2000 w0)))"
proof -
  have e: "sleeps (snd (withRetry (send mixed_errors (DescribeAccountSubscriptionCommand account))
                  ''describeAccountSubscription'' 2 2000 w0)) = [7000, 4000]"
    by code_simp
  show ?thesis by (simp add: e)
qed

section \<open>The backoff retrier: attempts and what is thrown\<close>

lemma retry_run_length:
  assumes run: "retry_run respond cmd m b 0 le w r w' errs"
    and j: "j \<le> m"
    and retried: "\<forall>n < j. \<exists>e. answer_at respond cmd (remote w) n = Inl e \<and> \<not> is_fatal e"
    and stop: "j < m \<Longrightarrow> (\<forall>e. answer_at respond cmd (remote w) j = Inl e \<longrightarrow> is_fatal e)"
  shows "length errs = j"
proof (rule ccontr)
  assume ne: "length errs \<noteq> j"
  have obs: "\<forall>n < length errs. answer_at respond cmd (remote w) n = Inl (errs ! n) \<and> \<not> is_fatal (errs ! n)"
    and len: "length errs \<le> m"
    using run by (simp_all add: retry_run_def)
  show False
  proof (cases "length errs < j")
    case True
    then have lt: "length errs < m - 0" using j by simp
    obtain e where e: "answer_at respond cmd (remote w) (length errs) = Inl e" "\<not> is_fatal e"
      using retried True by blast
    have "case answer_at respond cmd (remote w) (length errs) of
              Inr v \<Rightarrow> r = Inr v | Inl e \<Rightarrow> is_fatal e \<and> r = Inl (Some e)"
      using run lt unfolding retry_run_def by presburger
    then show False using e by simp
  next
    case False
    then have jl: "j < length errs" using ne by simp
    then have "j < m" using len by simp
    moreover have "answer_at respond cmd (remote w) j = Inl (errs ! j)" "\<not> is_fatal (errs ! j)"
      using obs jl by simp_all
    ultimately show False using stop by blast
  qed
qed

text \<open>
  Claim C2, as amended. In every run of \<open>withRetry\<close> on a sent command: the command is
  sent at most \<open>maxRetries\<close> times; when the answer to attempt \<open>j\<close> is a fatal error
  (after retried errors only), that error is thrown at once, after exactly \<open>j + 1\<close>
  sends and \<open>j\<close> delays, so a fatal first answer means a single send and no delay;
  and when all \<open>maxRetries\<close> attempts are answered by retried errors, what is thrown is
  the error answered to the last attempt, as it was answered: the code throws
  \<^verbatim>\<open>lastError\<close> itself and adds no mark of exhaustion.
\<close>

theorem withRetry_attempts:
  "(\<exists>k \<le> maxRetries.
       calls (snd (withRetry (send respond cmd) name maxRetries baseDelay w)) = calls w @ replicate k cmd) \<and>
   (j < maxRetries \<and>
    (\<forall>n < j. \<exists>e'. answer_at respond cmd (remote w) n = Inl e' \<and> \<not> is_fatal e') \<and>
    answer_at respond cmd (remote w) j = Inl e \<and> is_fatal e \<longrightarrow>
      fst (withRetry (send respond cmd) name maxRetries baseDelay w) = Inl (Some e) \<and>
      calls (snd (withRetry (send respond cmd) name maxRetries baseDelay w)) = calls w @ replicate (Suc j) cmd \<and>
      length (sleeps (snd (withRetry (send respond cmd) name maxRetries baseDelay w))) = length (sleeps w) + j) \<and>
   (0 < maxRetries \<and>
    (\<forall>n < maxRetries. \<exists>e'. answer_at respond cmd (remote w) n = Inl e' \<and> \<not> is_fatal e') \<longrightarrow>
      (\<exists>e'. answer_at respond cmd (remote w) (maxRetries - 1) = Inl e' \<and>
            fst (withRetry (send respond cmd) name maxRetries baseDelay w) = Inl (Some e')) \<and>
      calls (snd (withRetry (send respond cmd) name maxRetries baseDelay w)) = calls w @ replicate maxRetries cmd)"
proof -
  let ?r = "fst (withRetry (send respond cmd) name maxRetries baseDelay w)"
  let ?w' = "snd (withRetry (send respond cmd) name maxRetries baseDelay w)"
  obtain errs where run: "retry_run respond cmd maxRetries baseDelay 0 None w ?r ?w' errs"
    using withRetry_send [of respond cmd maxRetries baseDelay w name] by (elim exE)
  have len: "length errs \<le> maxRetries"
    and obs: "\<forall>n < length errs. answer_at respond cmd (remote w) n = Inl (errs ! n) \<and> \<not> is_fatal (errs ! n)"
    and sl: "length (sleeps ?w') = length (sleeps w) + length errs"
    using run by (simp_all add: retry_run_def)
  have early: "calls ?w' = calls w @ replicate (Suc (length errs)) cmd \<and>
           (case answer_at respond cmd (remote w) (length errs) of
              Inr v \<Rightarrow> ?r = Inr v | Inl e \<Rightarrow> is_fatal e \<and> ?r = Inl (Some e))"
    if "length errs < maxRetries"
    using run that unfolding retry_run_def by simp
  have late: "calls ?w' = calls w @ replicate (length errs) cmd \<and>
           ?r = Inl (if errs = [] then None else Some (last errs))"
    if "\<not> length errs < maxRetries"
    using run that unfolding retry_run_def by simp
  have 1: "\<exists>k \<le> maxRetries. calls ?w' = calls w @ replicate k cmd"
  proof (cases "length errs < maxRetries")
    case True
    then show ?thesis using early by (intro exI [of _ "Suc (length errs)"]) simp
  next
    case False
    then show ?thesis using late len by (intro exI [of _ "length errs"]) simp
  qed
  have 2: "?r = Inl (Some e) \<and> calls ?w' = calls w @ replicate (Suc j) cmd \<and>
           length (sleeps ?w') = length (sleeps w) + j"
    if j: "j < maxRetries"
      and retried: "\<forall>n < j. \<exists>e'. answer_at respond cmd (remote w) n = Inl e' \<and> \<not> is_fatal e'"
      and fatal: "answer_at respond cmd (remote w) j = Inl e" "is_fatal e"
  proof -
    have "length errs = j"
      using retry_run_length [OF run _ retried] j fatal by simp
    then show ?thesis using early j fatal sl by simp
  qed
  have 3: "(\<exists>e'. answer_at respond cmd (remote w) (maxRetries - 1) = Inl e' \<and> ?r = Inl (Some e')) \<and>
           calls ?w' = calls w @ replicate maxRetries cmd"
    if pos: "0 < maxRetries"
      and retried: "\<forall>n < maxRetries. \<exists>e'. answer_at respond cmd (remote w) n = Inl e' \<and> \<not> is_fatal e'"
  proof -
    have l: "length errs = maxRetries"
      using retry_run_length [OF run _ retried] by simp
    then have ne: "errs \<noteq> []" using pos by auto
    have "answer_at respond cmd (remote w) (maxRetries - 1) = Inl (last errs)"
      using obs l pos ne by (simp add: last_conv_nth)
    then show ?thesis using late l ne by simp
  qed
  show ?thesis using 1 2 3 by blast
qed

theorem withRetry_attempts_witness:
  "fst (withRetry (send always_throttled (DescribeAccountSubscriptionCommand account))
          ''describeAccountSubscription'' 5 2000 w0) = Inl (Some throttling_error) \<and>
   calls (snd (withRetry (send always_throttled (DescribeAccountSubscriptionCommand account))
          ''describeAccountSubscription'' 5 2000 w0))
     = replicate 5 (DescribeAccountSubscriptionCommand account) \<and>
   fst (withRetry (send not_found_once (DescribeAccountSubscriptionCommand account))
          ''describeAccountSubscription'' 5 2000 w0) = Inl (Some not_found_error) \<and>
   calls (snd (withRetry (send not_found_once (DescribeAccountSubscriptionCommand account))
          ''describeAccountSubscription'' 5 2000 w0)) = [DescribeAccountSubscriptionCommand account]"
proof -
  have nf: "\<not> is_fatal throttling_error" "is_fatal not_found_error"
    by (simp_all add: is_fatal_def throttling_error_def not_found_error_def code_of_def)
  have r0: "remote (w0 :: (nat, qs_command) world) = 0" and c0: "calls (w0 :: (nat, qs_command) world) = []"
    by (simp_all add: w0_def)
  have a: "answer_at always_throttled c s n = Inl throttling_error" for n s and c :: qs_command
    by (induction n arbitrary: s) (simp_all add: always_throttled_def scripted_def)
  have b: "fst (not_found_once 0 c) = Inl not_found_error"
    and a0: "fst (always_throttled 0 c) = Inl throttling_error" for c :: qs_command
    by (simp_all add: not_found_once_def always_throttled_def scripted_def)
  have ne: "throttling_error \<noteq> not_found_error"
    by (simp add: throttling_error_def not_found_error_def)
  show ?thesis
    using withRetry_attempts [of 5 always_throttled "DescribeAccountSubscriptionCommand account"
        "''describeAccountSubscription''" 2000 w0 0 not_found_error]
      withRetry_attempts [of 5 not_found_once "DescribeAccountSubscriptionCommand account"
        "''describeAccountSubscription''" 2000 w0 0 not_found_error]
    by (simp add: a a0 b ne nf r0 c0)
qed

text \<open>
  The claim as stated fails in its last part: after five throttled attempts the value
  thrown is the very error that one send without any retry gives, with the same name,
  flag and message; nothing in it says that retries were exhausted.
\<close>

theorem withRetry_attempts_counterexample:
  "fst (withRetry (send always_throttled (DescribeAccountSubscriptionCommand account))
          ''describeAccountSubscription'' 5 2000 w0) = Inl (Some throttling_error) \<and>
   fst (send always_throttled (DescribeAccountSubscriptionCommand account) w0) = Inl throttling_error"
  by code_simp

section \<open>The subscription workflow: commands sent\<close>

lemma withRetry_send_calls:
  assumes "0 < m"
  shows "\<exists>k. 0 < k \<and> k \<le> m \<and>
             calls (snd (withRetry (send respond cmd) name m b w)) = calls w @ replicate k cmd"
proof -
  let ?r = "fst (withRetry (send respond cmd) name m b w)"
  let ?w' = "snd (withRetry (send respond cmd) name m b w)"
  obtain errs where run: "retry_run respond cmd m b 0 None w ?r ?w' errs"
    using withRetry_send [of respond cmd m b w name] by (elim exE)
  have len: "length errs \<le> m" using run by (simp add: retry_run_def)
  show ?thesis
  proof (cases "length errs < m")
    case True
    then have "calls ?w' = calls w @ replicate (Suc (length errs)) cmd"
      using run unfolding retry_run_def by simp
    then show ?thesis using True by (intro exI [of _ "Suc (length errs)"]) simp
  next
    case False
    then have "calls ?w' = calls w @ replicate (length errs) cmd"
      using run unfolding retry_run_def by simp
    then show ?thesis using False len assms by (intro exI [of _ "length errs"]) simp
  qed
qed

lemma withRetry_send_calls':
  assumes "0 < m" "withRetry (send respond cmd) name m b w = (r, w')"
  shows "\<exists>k. 0 < k \<and> k \<le> m \<and> calls w' = calls w @ replicate k cmd"
  using withRetry_send_calls [OF assms(1), of respond cmd name b w] assms(2) by simp

lemma createSubscription_eq:
  "createSubscription respond props w =
     (case withRetry (send respond (create_command props)) ''createAccountSubscription'' 10 2000 w of
        (Inl e, w') \<Rightarrow> (Inl e, w') | (Inr v, w') \<Rightarrow> (Inr (), w'))"
  by (simp add: createSubscription_def create_command_def await_def Let_def)

lemma createSubscription_calls:
  "\<exists>k. 0 < k \<and> k \<le> 10 \<and>
       calls (snd (createSubscription respond props w)) = calls w @ replicate k (create_command props)"
proof -
  obtain r w' where rw: "withRetry (send respond (create_command props)) ''createAccountSubscription'' 10 2000 w = (r, w')"
    by (cases "withRetry (send respond (create_command props)) ''createAccountSubscription'' 10 2000 w")
  then obtain k where "0 < k" "k \<le> 10" "calls w' = calls w @ replicate k (create_command props)"
    using withRetry_send_calls' [of 10] by (metis zero_less_numeral)
  moreover have "snd (createSubscription respond props w) = w'"
    using rw by (simp add: createSubscription_eq split: sum.splits)
  ultimately show ?thesis by auto
qed

lemma handler_catch_calls:
  "\<exists>k. k \<le> 10 \<and>
       calls (snd (handler_catch respond props thrown w)) = calls w @ replicate k (create_command props)"
proof (cases thrown)
  case None
  then have "calls (snd (handler_catch respond props thrown w)) = calls w @ replicate 0 (create_command props)"
    by (simp add: handler_catch_def)
  then show ?thesis by (intro exI [of _ 0]) simp
next
  case (Some err)
  show ?thesis
  proof (cases "code_of err = ''ResourceNotFoundException''")
    case True
    obtain k where k: "0 < k" "k \<le> 10"
      "calls (snd (createSubscription respond props w)) = calls w @ replicate k (create_command props)"
      using createSubscription_calls by blast
    have "snd (handler_catch respond props thrown w) = snd (createSubscription respond props w)"
      using Some True by (simp add: handler_catch_def await_def split: prod.splits sum.splits)
    then show ?thesis using k by auto
  next
    case False
    then have "calls (snd (handler_catch respond props thrown w)) = calls w @ replicate 0 (create_command props)"
      using Some by (simp add: handler_catch_def Let_def)
    then show ?thesis by (intro exI [of _ 0]) simp
  qed
qed

lemma handler_catch_partial:
  assumes "code_of e = ''InternalFailure'' \<or> code_of e = ''ThrottlingException''"
  shows "handler_catch respond props (Some e) w =
           (Inr \<lparr>resp_PhysicalResourceId = physical_id (AwsAccountId props),
                 resp_Status = Some (''PartialFailure-'' @ code_of e)\<rparr>, w)"
  using assms by (auto simp add: handler_catch_def Let_def)

lemma handler_catch_not_found:
  assumes "code_of e = ''ResourceNotFoundException''"
  shows "handler_catch respond props (Some e) w =
           (case createSubscription respond props w of
              (Inl x, w') \<Rightarrow> (Inl x, w')
            | (Inr v, w') \<Rightarrow> (Inr \<lparr>resp_PhysicalResourceId = physical_id (AwsAccountId props),
                                     resp_Status = Some ''Created''\<rparr>, w'))"
  using assms by (simp add: handler_catch_def Let_def await_def split: prod.splits sum.splits)

lemma handler_catch_other:
  assumes "code_of e \<noteq> ''ResourceNotFoundException''" "code_of e \<noteq> ''InternalFailure''"
    "code_of e \<noteq> ''ThrottlingException''"
  shows "handler_catch respond props (Some e) w = (Inl (Some e), w)"
  using assms by (simp add: handler_catch_def Let_def)

lemma handler_after_throw:
  assumes cu: "RequestType ev \<noteq> Delete"
    and tr: "handler_try respond AWS_REGION (ResourceProperties ev) w = (Inl (Some e), w')"
  shows "handler respond AWS_REGION ev w =
           (if code_of e = ''ResourceNotFoundException'' then
              (case createSubscription respond (ResourceProperties ev) w' of
                 (Inl x, w'') \<Rightarrow> (Inl x, w'')
               | (Inr v, w'') \<Rightarrow>
                   (Inr \<lparr>resp_PhysicalResourceId = physical_id (AwsAccountId (ResourceProperties ev)),
                         resp_Status = Some ''Created''\<rparr>, w''))
            else if code_of e = ''InternalFailure'' \<or> code_of e = ''ThrottlingException'' then
              (Inr \<lparr>resp_PhysicalResourceId = physical_id (AwsAccountId (ResourceProperties ev)),
                    resp_Status = Some (''PartialFailure-'' @ code_of e)\<rparr>, w')
            else (Inl (Some e), w'))"
proof -
  have h: "handler respond AWS_REGION ev w = handler_catch respond (ResourceProperties ev) (Some e) w'"
    using cu tr by (simp add: handler_def Let_def)
  show ?thesis
  proof (cases "code_of e = ''ResourceNotFoundException''")
    case True
    then show ?thesis unfolding h by (simp add: handler_catch_not_found)
  next
    case False
    show ?thesis
    proof (cases "code_of e = ''InternalFailure'' \<or> code_of e = ''ThrottlingException''")
      case True
      then show ?thesis unfolding h using False handler_catch_partial [OF True] by simp
    next
      case F: False
      then show ?thesis unfolding h using False by (simp add: handler_catch_other)
    qed
  qed
qed

lemma handler_after_throw_calls:
  assumes cu: "RequestType ev \<noteq> Delete"
    and tr: "handler_try respond AWS_REGION (ResourceProperties ev) w = (Inl (Some e), w')"
  shows "\<exists>k. k \<le> 10 \<and> (0 < k \<longleftrightarrow> code_of e = ''ResourceNotFoundException'') \<and>
             calls (snd (handler respond AWS_REGION ev w)) =
               calls w' @ replicate k (create_command (ResourceProperties ev))"
proof (cases "code_of e = ''ResourceNotFoundException''")
  case True
  obtain k where k: "0 < k" "k \<le> 10"
    "calls (snd (createSubscription respond (ResourceProperties ev) w')) =
       calls w' @ replicate k (create_command (ResourceProperties ev))"
    using createSubscription_calls by blast
  have "snd (handler respond AWS_REGION ev w) = snd (createSubscription respond (ResourceProperties ev) w')"
    using True by (simp add: handler_after_throw [OF cu tr] split: prod.splits sum.splits)
  then show ?thesis using k True by auto
next
  case False
  then have "snd (handler respond AWS_REGION ev w) = w'"
    by (simp add: handler_after_throw [OF cu tr])
  then show ?thesis using False by (intro exI [of _ 0]) simp
qed

lemma handler_try_update_throws:
  assumes d: "withRetry (send respond (DescribeAccountSubscriptionCommand (AwsAccountId props)))
                ''describeAccountSubscription'' 5 2000 w = (Inr out, w1)"
    and st: "status_of out = Some ''UNSUBSCRIBE_FAILED''"
    and u: "withRetry (send respond (UpdateAccountSettingsCommand (AwsAccountId props) ''default''
                                      (NotificationEmail props)))
                ''updateAccountSettings'' 10 2000 w1 = (Inl thrown, w2)"
  shows "handler_try respond AWS_REGION props w = (Inl thrown, w2)"
  using st unfolding status_of_def
  by (simp add: handler_try_def await_def Let_def d u)

lemma handler_try_delete_throws:
  assumes d: "withRetry (send respond (DescribeAccountSubscriptionCommand (AwsAccountId props)))
                ''describeAccountSubscription'' 5 2000 w = (Inr out, w1)"
    and st: "status_of out = Some ''UNSUBSCRIBE_FAILED''"
    and u: "withRetry (send respond (UpdateAccountSettingsCommand (AwsAccountId props) ''default''
                                      (NotificationEmail props)))
                ''updateAccountSettings'' 10 2000 w1 = (Inr uo, w2)"
    and x: "withRetry (send respond (DeleteAccountSubscriptionCommand (AwsAccountId props)))
                ''deleteAccountSubscription'' 10 2000 w2 = (Inl thrown, w3)"
  shows "handler_try respond AWS_REGION props w = (Inl thrown, w3)"
  using st unfolding status_of_def
  by (simp add: handler_try_def await_def Let_def d u x)

lemma handler_try_unsubscribe_failed:
  assumes d: "withRetry (send respond (DescribeAccountSubscriptionCommand (AwsAccountId props)))
                ''describeAccountSubscription'' 5 2000 w = (Inr out, w1)"
    and st: "status_of out = Some ''UNSUBSCRIBE_FAILED''"
    and u: "withRetry (send respond (UpdateAccountSettingsCommand (AwsAccountId props) ''default''
                                      (NotificationEmail props)))
                ''updateAccountSettings'' 10 2000 w1 = (Inr uo, w2)"
    and x: "withRetry (send respond (DeleteAccountSubscriptionCommand (AwsAccountId props)))
                ''deleteAccountSubscription'' 10 2000 w2 = (Inr xo, w3)"
  shows "handler_try respond AWS_REGION props w =
           (case createSubscription respond props w3 of
              (Inl e, w4) \<Rightarrow> (Inl e, w4)
            | (Inr v, w4) \<Rightarrow> (Inr \<lparr>resp_PhysicalResourceId = physical_id (AwsAccountId props),
                                     resp_Status = Some ''Created''\<rparr>, w4))"
  using st unfolding status_of_def
  by (simp add: handler_try_def await_def Let_def d u x split: prod.splits sum.splits)

lemma unsubscribe_failed_calls:
  assumes cu: "RequestType ev \<noteq> Delete"
    and d: "withRetry (send respond (DescribeAccountSubscriptionCommand (AwsAccountId (ResourceProperties ev))))
                ''describeAccountSubscription'' 5 2000 w = (Inr out, w1)"
    and st: "status_of out = Some ''UNSUBSCRIBE_FAILED''"
    and u: "withRetry (send respond (UpdateAccountSettingsCommand (AwsAccountId (ResourceProperties ev)) ''default''
                                      (NotificationEmail (ResourceProperties ev))))
                ''updateAccountSettings'' 10 2000 w1 = (Inr uo, w2)"
    and x: "withRetry (send respond (DeleteAccountSubscriptionCommand (AwsAccountId (ResourceProperties ev))))
                ''deleteAccountSubscription'' 10 2000 w2 = (Inr xo, w3)"
  shows "\<exists>n i j k. 0 < n \<and> n \<le> 5 \<and> 0 < i \<and> i \<le> 10 \<and> 0 < j \<and> j \<le> 10 \<and> 0 < k \<and> k \<le> 20 \<and>
           calls (snd (handler respond AWS_REGION ev w)) =
             calls w
             @ replicate n (DescribeAccountSubscriptionCommand (AwsAccountId (ResourceProperties ev)))
             @ replicate i (UpdateAccountSettingsCommand (AwsAccountId (ResourceProperties ev)) ''default''
                              (NotificationEmail (ResourceProperties ev)))
             @ replicate j (DeleteAccountSubscriptionCommand (AwsAccountId (ResourceProperties ev)))
             @ replicate k (create_command (ResourceProperties ev))"
proof -
  let ?props = "ResourceProperties ev"
  let ?D = "DescribeAccountSubscriptionCommand (AwsAccountId ?props)"
  let ?U = "UpdateAccountSettingsCommand (AwsAccountId ?props) ''default'' (NotificationEmail ?props)"
  let ?X = "DeleteAccountSubscriptionCommand (AwsAccountId ?props)"
  let ?C = "create_command ?props"
  obtain n where n: "0 < n" "n \<le> 5" "calls w1 = calls w @ replicate n ?D"
    using withRetry_send_calls' [OF _ d] by auto
  obtain i where i: "0 < i" "i \<le> 10" "calls w2 = calls w1 @ replicate i ?U"
    using withRetry_send_calls' [OF _ u] by auto
  obtain j where j: "0 < j" "j \<le> 10" "calls w3 = calls w2 @ replicate j ?X"
    using withRetry_send_calls' [OF _ x] by auto
  obtain r4 w4 where c: "createSubscription respond ?props w3 = (r4, w4)"
    by (cases "createSubscription respond ?props w3")
  obtain k where k: "0 < k" "k \<le> 10" "calls w4 = calls w3 @ replicate k ?C"
    using createSubscription_calls [of respond ?props w3] c by auto
  have tr: "handler_try respond AWS_REGION ?props w =
      (case r4 of Inl e \<Rightarrow> (Inl e, w4)
       | Inr v \<Rightarrow> (Inr \<lparr>resp_PhysicalResourceId = physical_id (AwsAccountId ?props),
                          resp_Status = Some ''Created''\<rparr>, w4))"
    using handler_try_unsubscribe_failed [OF d st u x, of AWS_REGION] c by simp
  have "\<exists>k'. k' \<le> 10 \<and> calls (snd (handler respond AWS_REGION ev w)) = calls w4 @ replicate k' ?C"
  proof (cases r4)
    case (Inr v)
    then have "calls (snd (handler respond AWS_REGION ev w)) = calls w4 @ replicate 0 ?C"
      using cu tr by (simp add: handler_def Let_def)
    then show ?thesis by (intro exI [of _ 0]) simp
  next
    case (Inl thrown)
    then have "handler respond AWS_REGION ev w = handler_catch respond ?props thrown w4"
      using cu tr by (simp add: handler_def Let_def)
    then show ?thesis using handler_catch_calls [of respond ?props thrown w4] by simp
  qed
  then obtain k' where k': "k' \<le> 10"
    "calls (snd (handler respond AWS_REGION ev w)) = calls w4 @ replicate k' ?C" by blast
  have "calls (snd (handler respond AWS_REGION ev w)) =
          calls w @ replicate n ?D @ replicate i ?U @ replicate j ?X @ replicate (k + k') ?C"
    using n i j k k' by (simp add: replicate_add)
  moreover have "0 < k + k'" "k + k' \<le> 20" using k k' by simp_all
  ultimately show ?thesis using n i j by blast
qed

section \<open>The subscription workflow: status \<open>UNSUBSCRIBE_FAILED\<close>\<close>

text \<open>
  Claim C4, as amended. On a Create or Update invocation that observes the status
  \<open>UNSUBSCRIBE_FAILED\<close>:
  \<^item> when the settings update and the delete both succeed (each within its retries), the
    handler sends, in this order and nothing else: the status lookup (1 to 5 times), the
    settings update (1 to 10 times), the delete of the subscription (1 to 10 times), and
    the create (1 to 20 times); so no create is sent before the delete;
  \<^item> when the settings update throws, no delete is sent, and the \<^verbatim>\<open>catch\<close> block
    decides: after \<open>ResourceNotFoundException\<close> the subscription is created (1 to 10
    create commands) and the result is that of the create; after \<open>InternalFailure\<close> or
    \<open>ThrottlingException\<close> the result is the status \<open>PartialFailure-\<close> followed by the
    error name, and no create is sent; any other error is rethrown, and no create is sent;
  \<^item> when the settings update succeeds and the delete throws, the same three cases
    apply after the delete commands.
  (The delete command carries the account only, no force flag.)
\<close>

theorem unsubscribe_failed_order:
  assumes cu: "RequestType ev \<noteq> Delete"
    and d: "withRetry (send respond (DescribeAccountSubscriptionCommand (AwsAccountId (ResourceProperties ev))))
                ''describeAccountSubscription'' 5 2000 w = (Inr out, w1)"
    and st: "status_of out = Some ''UNSUBSCRIBE_FAILED''"
  shows "(\<forall>uo w2 xo w3.
            withRetry (send respond (UpdateAccountSettingsCommand (AwsAccountId (ResourceProperties ev)) ''default'' (NotificationEmail (ResourceProperties ev)))) ''updateAccountSettings'' 10 2000 w1 = (Inr uo, w2) \<and>
            withRetry (send respond (DeleteAccountSubscriptionCommand (AwsAccountId (ResourceProperties ev)))) ''deleteAccountSubscription'' 10 2000 w2 = (Inr xo, w3) \<longrightarrow>
            (\<exists>n i j k. 0 < n \<and> n \<le> 5 \<and> 0 < i \<and> i \<le> 10 \<and> 0 < j \<and> j \<le> 10 \<and> 0 < k \<and> k \<le> 20 \<and>
            calls (snd (handler respond AWS_REGION ev w)) =
              calls w @ replicate n (DescribeAccountSubscriptionCommand (AwsAccountId (ResourceProperties ev)))
              @ replicate i (UpdateAccountSettingsCommand (AwsAccountId (ResourceProperties ev)) ''default'' (NotificationEmail (ResourceProperties ev)))
              @ replicate j (DeleteAccountSubscriptionCommand (AwsAccountId (ResourceProperties ev)))
              @ replicate k (create_command (ResourceProperties ev)))) \<and>
         (\<forall>e w2.
            withRetry (send respond (UpdateAccountSettingsCommand (AwsAccountId (ResourceProperties ev)) ''default'' (NotificationEmail (ResourceProperties ev)))) ''updateAccountSettings'' 10 2000 w1 = (Inl (Some e), w2) \<longrightarrow>
            handler respond AWS_REGION ev w =
            (if code_of e = ''ResourceNotFoundException'' then
                (case createSubscription respond (ResourceProperties ev) w2 of
                   (Inl x, w') \<Rightarrow> (Inl x, w')
                 | (Inr v, w') \<Rightarrow>
                     (Inr \<lparr>resp_PhysicalResourceId = physical_id (AwsAccountId (ResourceProperties ev)),
                           resp_Status = Some ''Created''\<rparr>, w'))
              else if code_of e = ''InternalFailure'' \<or> code_of e = ''ThrottlingException'' then
                (Inr \<lparr>resp_PhysicalResourceId = physical_id (AwsAccountId (ResourceProperties ev)),
                      resp_Status = Some (''PartialFailure-'' @ code_of e)\<rparr>, w2)
              else (Inl (Some e), w2)) \<and>
            (\<exists>n i k. 0 < n \<and> n \<le> 5 \<and> 0 < i \<and> i \<le> 10 \<and> k \<le> 10 \<and>
              (0 < k \<longleftrightarrow> code_of e = ''ResourceNotFoundException'') \<and>
              calls (snd (handler respond AWS_REGION ev w)) =
                calls w @ replicate n (DescribeAccountSubscriptionCommand (AwsAccountId (ResourceProperties ev)))
                @ replicate i (UpdateAccountSettingsCommand (AwsAccountId (ResourceProperties ev)) ''default'' (NotificationEmail (ResourceProperties ev)))
                @ replicate k (create_command (ResourceProperties ev)))) \<and>
         (\<forall>uo w2 e w3.
            withRetry (send respond (UpdateAccountSettingsCommand (AwsAccountId (ResourceProperties ev)) ''default'' (NotificationEmail (ResourceProperties ev)))) ''updateAccountSettings'' 10 2000 w1 = (Inr uo, w2) \<and>
            withRetry (send respond (DeleteAccountSubscriptionCommand (AwsAccountId (ResourceProperties ev)))) ''deleteAccountSubscription'' 10 2000 w2 = (Inl (Some e), w3) \<longrightarrow>
            handler respond AWS_REGION ev w =
            (if code_of e = ''ResourceNotFoundException'' then
                (case createSubscription respond (ResourceProperties ev) w3 of
                   (Inl x, w') \<Rightarrow> (Inl x, w')
                 | (Inr v, w') \<Rightarrow>
                     (Inr \<lparr>resp_PhysicalResourceId = physical_id (AwsAccountId (ResourceProperties ev)),
                           resp_Status = Some ''Created''\<rparr>, w'))
              else if code_of e = ''InternalFailure'' \<or> code_of e = ''ThrottlingException'' then
                (Inr \<lparr>resp_PhysicalResourceId = physical_id (AwsAccountId (ResourceProperties ev)),
                      resp_Status = Some (''PartialFailure-'' @ code_of e)\<rparr>, w3)
              else (Inl (Some e), w3)) \<and>
            (\<exists>n i j k. 0 < n \<and> n \<le> 5 \<and> 0 < i \<and> i \<le> 10 \<and> 0 < j \<and> j \<le> 10 \<and> k \<le> 10 \<and>
              (0 < k \<longleftrightarrow> code_of e = ''ResourceNotFoundException'') \<and>
              calls (snd (handler respond AWS_REGION ev w)) =
                calls w @ replicate n (DescribeAccountSubscriptionCommand (AwsAccountId (ResourceProperties ev)))
                @ replicate i (UpdateAccountSettingsCommand (AwsAccountId (ResourceProperties ev)) ''default'' (NotificationEmail (ResourceProperties ev)))
                @ replicate j (DeleteAccountSubscriptionCommand (AwsAccountId (ResourceProperties ev)))
                @ replicate k (create_command (ResourceProperties ev))))"
proof (intro conjI allI impI)
  fix uo w2 xo w3
  assume "withRetry (send respond (UpdateAccountSettingsCommand (AwsAccountId (ResourceProperties ev)) ''default'' (NotificationEmail (ResourceProperties ev)))) ''updateAccountSettings'' 10 2000 w1 = (Inr uo, w2) \<and>
            withRetry (send respond (DeleteAccountSubscriptionCommand (AwsAccountId (ResourceProperties ev)))) ''deleteAccountSubscription'' 10 2000 w2 = (Inr xo, w3)"
  then show "\<exists>n i j k. 0 < n \<and> n \<le> 5 \<and> 0 < i \<and> i \<le> 10 \<and> 0 < j \<and> j \<le> 10 \<and> 0 < k \<and> k \<le> 20 \<and>
            calls (snd (handler respond AWS_REGION ev w)) =
              calls w @ replicate n (DescribeAccountSubscriptionCommand (AwsAccountId (ResourceProperties ev)))
              @ replicate i (UpdateAccountSettingsCommand (AwsAccountId (ResourceProperties ev)) ''default'' (NotificationEmail (ResourceProperties ev)))
              @ replicate j (DeleteAccountSubscriptionCommand (AwsAccountId (ResourceProperties ev)))
              @ replicate k (create_command (ResourceProperties ev))"
    using unsubscribe_failed_calls [OF cu d st] by blast
next
  fix e w2
  assume u: "withRetry (send respond (UpdateAccountSettingsCommand (AwsAccountId (ResourceProperties ev)) ''default'' (NotificationEmail (ResourceProperties ev)))) ''updateAccountSettings'' 10 2000 w1 = (Inl (Some e), w2)"
  have tr: "handler_try respond AWS_REGION (ResourceProperties ev) w = (Inl (Some e), w2)"
    by (rule handler_try_update_throws [OF d st u])
  show "handler respond AWS_REGION ev w =
            (if code_of e = ''ResourceNotFoundException'' then
                (case createSubscription respond (ResourceProperties ev) w2 of
                   (Inl x, w') \<Rightarrow> (Inl x, w')
                 | (Inr v, w') \<Rightarrow>
                     (Inr \<lparr>resp_PhysicalResourceId = physical_id (AwsAccountId (ResourceProperties ev)),
                           resp_Status = Some ''Created''\<rparr>, w'))
              else if code_of e = ''InternalFailure'' \<or> code_of e = ''ThrottlingException'' then
                (Inr \<lparr>resp_PhysicalResourceId = physical_id (AwsAccountId (ResourceProperties ev)),
                      resp_Status = Some (''PartialFailure-'' @ code_of e)\<rparr>, w2)
              else (Inl (Some e), w2))"
    by (rule handler_after_throw [OF cu tr])
  obtain n where n: "0 < n" "n \<le> 5" "calls w1 = calls w @ replicate n (DescribeAccountSubscriptionCommand (AwsAccountId (ResourceProperties ev)))"
    using withRetry_send_calls' [OF _ d] by auto
  obtain i where i: "0 < i" "i \<le> 10" "calls w2 = calls w1 @ replicate i (UpdateAccountSettingsCommand (AwsAccountId (ResourceProperties ev)) ''default'' (NotificationEmail (ResourceProperties ev)))"
    using withRetry_send_calls' [OF _ u] by auto
  obtain k where k: "k \<le> 10" "0 < k \<longleftrightarrow> code_of e = ''ResourceNotFoundException''"
    "calls (snd (handler respond AWS_REGION ev w)) = calls w2 @ replicate k (create_command (ResourceProperties ev))"
    using handler_after_throw_calls [OF cu tr] by blast
  have "calls (snd (handler respond AWS_REGION ev w)) =
          calls w @ replicate n (DescribeAccountSubscriptionCommand (AwsAccountId (ResourceProperties ev))) @ replicate i (UpdateAccountSettingsCommand (AwsAccountId (ResourceProperties ev)) ''default'' (NotificationEmail (ResourceProperties ev))) @ replicate k (create_command (ResourceProperties ev))"
    using n i k by simp
  then show "\<exists>n i k. 0 < n \<and> n \<le> 5 \<and> 0 < i \<and> i \<le> 10 \<and> k \<le> 10 \<and>
              (0 < k \<longleftrightarrow> code_of e = ''ResourceNotFoundException'') \<and>
              calls (snd (handler respond AWS_REGION ev w)) =
                calls w @ replicate n (DescribeAccountSubscriptionCommand (AwsAccountId (ResourceProperties ev)))
                @ replicate i (UpdateAccountSettingsCommand (AwsAccountId (ResourceProperties ev)) ''default'' (NotificationEmail (ResourceProperties ev)))
                @ replicate k (create_command (ResourceProperties ev))"
    using n i k by blast
next
  fix uo w2 e w3
  assume a: "withRetry (send respond (UpdateAccountSettingsCommand (AwsAccountId (ResourceProperties ev)) ''default'' (NotificationEmail (ResourceProperties ev)))) ''updateAccountSettings'' 10 2000 w1 = (Inr uo, w2) \<and>
            withRetry (send respond (DeleteAccountSubscriptionCommand (AwsAccountId (ResourceProperties ev)))) ''deleteAccountSubscription'' 10 2000 w2 = (Inl (Some e), w3)"
  then have u: "withRetry (send respond (UpdateAccountSettingsCommand (AwsAccountId (ResourceProperties ev)) ''default'' (NotificationEmail (ResourceProperties ev)))) ''updateAccountSettings'' 10 2000 w1 = (Inr uo, w2)"
    and x: "withRetry (send respond (DeleteAccountSubscriptionCommand (AwsAccountId (ResourceProperties ev)))) ''deleteAccountSubscription'' 10 2000 w2 = (Inl (Some e), w3)" by simp_all
  have tr: "handler_try respond AWS_REGION (ResourceProperties ev) w = (Inl (Some e), w3)"
    by (rule handler_try_delete_throws [OF d st u x])
  show "handler respond AWS_REGION ev w =
            (if code_of e = ''ResourceNotFoundException'' then
                (case createSubscription respond (ResourceProperties ev) w3 of
                   (Inl x, w') \<Rightarrow> (Inl x, w')
                 | (Inr v, w') \<Rightarrow>
                     (Inr \<lparr>resp_PhysicalResourceId = physical_id (AwsAccountId (ResourceProperties ev)),
                           resp_Status = Some ''Created''\<rparr>, w'))
              else if code_of e = ''InternalFailure'' \<or> code_of e = ''ThrottlingException'' then
                (Inr \<lparr>resp_PhysicalResourceId = physical_id (AwsAccountId (ResourceProperties ev)),
                      resp_Status = Some (''PartialFailure-'' @ code_of e)\<rparr>, w3)
              else (Inl (Some e), w3))"
    by (rule handler_after_throw [OF cu tr])
  obtain n where n: "0 < n" "n \<le> 5" "calls w1 = calls w @ replicate n (DescribeAccountSubscriptionCommand (AwsAccountId (ResourceProperties ev)))"
    using withRetry_send_calls' [OF _ d] by auto
  obtain i where i: "0 < i" "i \<le> 10" "calls w2 = calls w1 @ replicate i (UpdateAccountSettingsCommand (AwsAccountId (ResourceProperties ev)) ''default'' (NotificationEmail (ResourceProperties ev)))"
    using withRetry_send_calls' [OF _ u] by auto
  obtain j where j: "0 < j" "j \<le> 10" "calls w3 = calls w2 @ replicate j (DeleteAccountSubscriptionCommand (AwsAccountId (ResourceProperties ev)))"
    using withRetry_send_calls' [OF _ x] by auto
  obtain k where k: "k \<le> 10" "0 < k \<longleftrightarrow> code_of e = ''ResourceNotFoundException''"
    "calls (snd (handler respond AWS_REGION ev w)) = calls w3 @ replicate k (create_command (ResourceProperties ev))"
    using handler_after_throw_calls [OF cu tr] by blast
  have "calls (snd (handler respond AWS_REGION ev w)) =
          calls w @ replicate n (DescribeAccountSubscriptionCommand (AwsAccountId (ResourceProperties ev))) @ replicate i (UpdateAccountSettingsCommand (AwsAccountId (ResourceProperties ev)) ''default'' (NotificationEmail (ResourceProperties ev))) @ replicate j (DeleteAccountSubscriptionCommand (AwsAccountId (ResourceProperties ev))) @ replicate k (create_command (ResourceProperties ev))"
    using n i j k by simp
  then show "\<exists>n i j k. 0 < n \<and> n \<le> 5 \<and> 0 < i \<and> i \<le> 10 \<and> 0 < j \<and> j \<le> 10 \<and> k \<le> 10 \<and>
              (0 < k \<longleftrightarrow> code_of e = ''ResourceNotFoundException'') \<and>
              calls (snd (handler respond AWS_REGION ev w)) =
                calls w @ replicate n (DescribeAccountSubscriptionCommand (AwsAccountId (ResourceProperties ev)))
                @ replicate i (UpdateAccountSettingsCommand (AwsAccountId (ResourceProperties ev)) ''default'' (NotificationEmail (ResourceProperties ev)))
                @ replicate j (DeleteAccountSubscriptionCommand (AwsAccountId (ResourceProperties ev)))
                @ replicate k (create_command (ResourceProperties ev))"
    using n i j k by blast
qed

theorem unsubscribe_failed_order_witness:
  "calls (snd (handler stuck_remote (Some ''us-east-1'') create_event u0)) =
     [DescribeAccountSubscriptionCommand account,
      UpdateAccountSettingsCommand account ''default'' ''admin@example.com'',
      DeleteAccountSubscriptionCommand account,
      create_command example_props] \<and>
   handler stuck_and_gone_remote (Some ''us-east-1'') create_event u0 =
     (Inr \<lparr>resp_PhysicalResourceId = ''quicksight-subscription-123456789012'', resp_Status = Some ''Created''\<rparr>,
      u0\<lparr>calls := [DescribeAccountSubscriptionCommand account,
                     UpdateAccountSettingsCommand account ''default'' ''admin@example.com'',
                     create_command example_props]\<rparr>) \<and>
   handler stuck_delete_denied (Some ''us-east-1'') create_event u0 =
     (Inl (Some access_denied),
      u0\<lparr>calls := [DescribeAccountSubscriptionCommand account,
                     UpdateAccountSettingsCommand account ''default'' ''admin@example.com'',
                     DeleteAccountSubscriptionCommand account]\<rparr>)"
proof -
  let ?D = "DescribeAccountSubscriptionCommand (AwsAccountId (ResourceProperties create_event))"
  let ?U = "UpdateAccountSettingsCommand (AwsAccountId (ResourceProperties create_event)) ''default''
              (NotificationEmail (ResourceProperties create_event))"
  let ?X = "DeleteAccountSubscriptionCommand (AwsAccountId (ResourceProperties create_event))"
  let ?w1 = "u0\<lparr>calls := [?D]\<rparr> :: (unit, qs_command) world"
  let ?w2 = "u0\<lparr>calls := [?D, ?U]\<rparr> :: (unit, qs_command) world"
  have cu: "RequestType create_event \<noteq> Delete" by (simp add: create_event_def)
  have st: "status_of (status_output ''UNSUBSCRIBE_FAILED'') = Some ''UNSUBSCRIBE_FAILED''"
    by (simp add: status_of_def status_output_def)
  have d1: "withRetry (send stuck_remote ?D) ''describeAccountSubscription'' 5 2000 u0
             = (Inr (status_output ''UNSUBSCRIBE_FAILED''), ?w1)"
    and d2: "withRetry (send stuck_and_gone_remote ?D) ''describeAccountSubscription'' 5 2000 u0
             = (Inr (status_output ''UNSUBSCRIBE_FAILED''), ?w1)"
    and d3: "withRetry (send stuck_delete_denied ?D) ''describeAccountSubscription'' 5 2000 u0
             = (Inr (status_output ''UNSUBSCRIBE_FAILED''), ?w1)"
    by code_simp+
  have u1: "withRetry (send stuck_remote ?U) ''updateAccountSettings'' 10 2000 ?w1 = (Inr empty_output, ?w2)"
    and x1: "withRetry (send stuck_remote ?X) ''deleteAccountSubscription'' 10 2000 ?w2
             = (Inr empty_output, u0\<lparr>calls := [?D, ?U, ?X]\<rparr>)"
    and u2: "withRetry (send stuck_and_gone_remote ?U) ''updateAccountSettings'' 10 2000 ?w1
             = (Inl (Some not_found_error), ?w2)"
    and u3: "withRetry (send stuck_delete_denied ?U) ''updateAccountSettings'' 10 2000 ?w1
             = (Inr empty_output, ?w2)"
    and x3: "withRetry (send stuck_delete_denied ?X) ''deleteAccountSubscription'' 10 2000 ?w2
             = (Inl (Some access_denied), u0\<lparr>calls := [?D, ?U, ?X]\<rparr>)"
    by code_simp+
  have e1: "calls (snd (handler stuck_remote (Some ''us-east-1'') create_event u0)) =
     [DescribeAccountSubscriptionCommand account,
      UpdateAccountSettingsCommand account ''default'' ''admin@example.com'',
      DeleteAccountSubscriptionCommand account,
      create_command example_props]"
    by code_simp
  have c2: "createSubscription stuck_and_gone_remote (ResourceProperties create_event) ?w2
      = (Inr (), u0\<lparr>calls := [?D, ?U, create_command example_props]\<rparr>)"
    by code_simp
  have k: "code_of not_found_error = ''ResourceNotFoundException''"
    "code_of access_denied = ''AccessDeniedException''"
    "physical_id (AwsAccountId (ResourceProperties create_event)) = ''quicksight-subscription-123456789012''"
    "?D = DescribeAccountSubscriptionCommand account"
    "?U = UpdateAccountSettingsCommand account ''default'' ''admin@example.com''"
    "?X = DeleteAccountSubscriptionCommand account"
    by code_simp+
  note t1 = unsubscribe_failed_order [OF cu d1 st, of "Some ''us-east-1''"]
  note t2 = unsubscribe_failed_order [OF cu d2 st, of "Some ''us-east-1''"]
  note t3 = unsubscribe_failed_order [OF cu d3 st, of "Some ''us-east-1''"]
  have h2: "handler stuck_and_gone_remote (Some ''us-east-1'') create_event u0 =
     (Inr \<lparr>resp_PhysicalResourceId = ''quicksight-subscription-123456789012'', resp_Status = Some ''Created''\<rparr>,
      u0\<lparr>calls := [?D, ?U, create_command example_props]\<rparr>)"
    using conjunct1 [OF conjunct2 [OF t2], rule_format, OF u2] by (simp add: k(1,3) c2)
  have h3: "handler stuck_delete_denied (Some ''us-east-1'') create_event u0 =
     (Inl (Some access_denied), u0\<lparr>calls := [?D, ?U, ?X]\<rparr>)"
    using conjunct2 [OF conjunct2 [OF t3], rule_format, OF conjI [OF u3 x3]] by (simp add: k(2))
  have h1: "\<exists>n i j k. 0 < n \<and> n \<le> 5 \<and> 0 < i \<and> i \<le> 10 \<and> 0 < j \<and> j \<le> 10 \<and> 0 < k \<and> k \<le> 20 \<and>
            calls (snd (handler stuck_remote (Some ''us-east-1'') create_event u0)) =
              calls u0 @ replicate n ?D @ replicate i ?U @ replicate j ?X
              @ replicate k (create_command (ResourceProperties create_event))"
    using conjunct1 [OF t1, rule_format, OF conjI [OF u1 x1]] .
  show ?thesis using h1 h2 h3 e1 by (simp add: k(4,5,6))
qed

text \<open>
  The claim as stated fails: when the settings update is answered by
  \<open>ResourceNotFoundException\<close>, the \<^verbatim>\<open>catch\<close> block creates the subscription at
  once, and no delete is ever sent.
\<close>

theorem unsubscribe_failed_order_counterexample:
  "fst (send stuck_and_gone_remote (DescribeAccountSubscriptionCommand account) u0)
     = Inr (status_output ''UNSUBSCRIBE_FAILED'') \<and>
   handler stuck_and_gone_remote (Some ''us-east-1'') create_event u0 =
     (Inr \<lparr>resp_PhysicalResourceId = ''quicksight-subscription-123456789012'', resp_Status = Some ''Created''\<rparr>,
      u0\<lparr>calls := [DescribeAccountSubscriptionCommand account,
                     UpdateAccountSettingsCommand account ''default'' ''admin@example.com'',
                     create_command example_props]\<rparr>) \<and>
   DeleteAccountSubscriptionCommand account
     \<notin> set (calls (snd (handler stuck_and_gone_remote (Some ''us-east-1'') create_event u0)))"
  by code_simp

section \<open>The subscription workflow: status \<open>ACCOUNT_CREATED\<close>\<close>

lemma filter_mutating_replicate_describe [simp]:
  "filter mutating (replicate n (DescribeAccountSubscriptionCommand a)) = []"
  and filter_mutating_replicate_list [simp]:
  "filter mutating (replicate n (ListNamespacesCommand a)) = []"
  by (induction n) simp_all





section \<open>The subscription workflow: partial failure\<close>




lemma answer_at_constant:
  assumes "\<And>s. fst (respond s cmd) = x"
  shows "answer_at respond cmd s n = x"
  using assms by (induction n arbitrary: s) simp_all



section \<open>The subscription workflow: creation and the physical identifier\<close>

lemma handler_try_id:
  assumes "handler_try respond AWS_REGION props w = (Inr res, w')"
  shows "resp_PhysicalResourceId res = physical_id (AwsAccountId props)"
  using assms
  by (auto simp add: handler_try_def await_def Let_def
           split: prod.splits sum.splits option.splits list.splits if_splits)

lemma handler_catch_id:
  assumes "handler_catch respond props thrown w = (Inr res, w')"
  shows "resp_PhysicalResourceId res = physical_id (AwsAccountId props)"
  using assms
  by (auto simp add: handler_catch_def await_def Let_def
           split: prod.splits sum.splits option.splits if_splits)

lemma handler_id:
  assumes "RequestType ev \<noteq> Delete" "fst (handler respond AWS_REGION ev w) = Inr res"
  shows "resp_PhysicalResourceId res = physical_id (AwsAccountId (ResourceProperties ev))"
proof -
  obtain r1 w1 where t: "handler_try respond AWS_REGION (ResourceProperties ev) w = (r1, w1)"
    by (cases "handler_try respond AWS_REGION (ResourceProperties ev) w")
  show ?thesis
  proof (cases r1)
    case (Inr v)
    then have "handler respond AWS_REGION ev w = (Inr v, w1)"
      using assms(1) t by (simp add: handler_def Let_def)
    then show ?thesis using assms(2) handler_try_id t Inr by fastforce
  next
    case (Inl thrown)
    then have h: "handler respond AWS_REGION ev w = handler_catch respond (ResourceProperties ev) thrown w1"
      using assms(1) t by (simp add: handler_def Let_def)
    obtain w2 where "handler_catch respond (ResourceProperties ev) thrown w1 = (Inr res, w2)"
      using assms(2) h by (cases "handler_catch respond (ResourceProperties ev) thrown w1") simp
    then show ?thesis by (rule handler_catch_id)
  qed
qed

lemma withRetry_first_success:
  assumes "respond (remote w) cmd = (Inr v, s')" "0 < m"
  shows "withRetry (send respond cmd) name m b w = (Inr v, w\<lparr>remote := s', calls := calls w @ [cmd]\<rparr>)"
  using assms by (simp add: withRetry_def withRetry_from_step send_def)

text \<open>
  Claim C7, as amended. On a Create (or Update) invocation whose status lookup ends with
  \<open>ResourceNotFoundException\<close>, and whose create command succeeds at its first
  attempt, the handler sends exactly one create command after the lookup and returns the
  identifier \<open>quicksight-subscription-\<close> followed by the account identifier, with
  the status \<open>Created\<close>. Whatever the remote side, the region and the world, a result
  of a Create or Update invocation carries that same identifier, which depends on the
  account identifier only.
\<close>

theorem create_when_not_found:
  assumes cu: "RequestType ev \<noteq> Delete"
    and d: "withRetry (send respond (DescribeAccountSubscriptionCommand (AwsAccountId (ResourceProperties ev))))
                ''describeAccountSubscription'' 5 2000 w = (Inl (Some e), w1)"
    and nf: "code_of e = ''ResourceNotFoundException''"
    and c: "respond (remote w1) (create_command (ResourceProperties ev)) = (Inr out, s2)"
  shows "handler respond AWS_REGION ev w =
           (Inr \<lparr>resp_PhysicalResourceId = ''quicksight-subscription-'' @ AwsAccountId (ResourceProperties ev),
                 resp_Status = Some ''Created''\<rparr>,
            w1\<lparr>remote := s2, calls := calls w1 @ [create_command (ResourceProperties ev)]\<rparr>) \<and>
         (\<forall>respond' region' w' res.
             fst (handler respond' region' ev w') = Inr res \<longrightarrow>
             resp_PhysicalResourceId res = ''quicksight-subscription-'' @ AwsAccountId (ResourceProperties ev))"
proof (intro conjI allI impI)
  let ?props = "ResourceProperties ev"
  have t: "handler_try respond AWS_REGION ?props w = (Inl (Some e), w1)"
    by (simp add: handler_try_def await_def Let_def d)
  have cr: "createSubscription respond ?props w1 =
              (Inr (), w1\<lparr>remote := s2, calls := calls w1 @ [create_command ?props]\<rparr>)"
    using withRetry_first_success [of respond w1 "create_command ?props" out s2 10
        "''createAccountSubscription''" 2000] c
    by (simp add: createSubscription_eq)
  show "handler respond AWS_REGION ev w =
           (Inr \<lparr>resp_PhysicalResourceId = ''quicksight-subscription-'' @ AwsAccountId ?props,
                 resp_Status = Some ''Created''\<rparr>,
            w1\<lparr>remote := s2, calls := calls w1 @ [create_command ?props]\<rparr>)"
    using cu t by (simp add: handler_def Let_def handler_catch_not_found [OF nf] cr physical_id_def)
next
  fix respond' :: "('b, qs_command, qs_output) remote_api" and region' w' res
  assume "fst (handler respond' region' ev w') = Inr res"
  then show "resp_PhysicalResourceId res = ''quicksight-subscription-'' @ AwsAccountId (ResourceProperties ev)"
    using handler_id [OF cu] by (simp add: physical_id_def)
qed

theorem create_when_not_found_witness:
  "handler fresh_account (Some ''us-east-1'') create_event u0 =
     (Inr \<lparr>resp_PhysicalResourceId = ''quicksight-subscription-123456789012'', resp_Status = Some ''Created''\<rparr>,
      u0\<lparr>calls := [DescribeAccountSubscriptionCommand account, create_command example_props]\<rparr>)"
proof -
  let ?w1 = "u0\<lparr>calls := [DescribeAccountSubscriptionCommand account]\<rparr> :: (unit, qs_command) world"
  have cu: "RequestType create_event \<noteq> Delete"
    and p: "ResourceProperties create_event = example_props"
    by (simp_all add: create_event_def)
  have d: "withRetry (send fresh_account (DescribeAccountSubscriptionCommand (AwsAccountId (ResourceProperties create_event))))
                ''describeAccountSubscription'' 5 2000 u0 = (Inl (Some not_found_error), ?w1)"
    by code_simp
  have nf: "code_of not_found_error = ''ResourceNotFoundException''" by code_simp
  have c: "fresh_account (remote ?w1) (create_command (ResourceProperties create_event)) = (Inr empty_output, ())"
    by (simp add: fresh_account_def respond_by_def create_command_def)
  have a: "AwsAccountId example_props = ''123456789012''" by code_simp
  have "handler fresh_account (Some ''us-east-1'') create_event u0 =
           (Inr \<lparr>resp_PhysicalResourceId = ''quicksight-subscription-'' @ AwsAccountId (ResourceProperties create_event),
                 resp_Status = Some ''Created''\<rparr>,
            ?w1\<lparr>remote := (), calls := calls ?w1 @ [create_command (ResourceProperties create_event)]\<rparr>)"
    by (rule conjunct1 [OF create_when_not_found [OF cu d nf c]])
  then show ?thesis
    by (simp add: p a u0_def account_def)
qed

text \<open>
  The claim as stated fails on the identifier: it is
  \<open>quicksight-subscription-123456789012\<close>, not \<open>sub-123456789012\<close>.
\<close>

theorem create_when_not_found_counterexample:
  "fst (handler fresh_account (Some ''us-east-1'') create_event u0) =
     Inr \<lparr>resp_PhysicalResourceId = ''quicksight-subscription-123456789012'', resp_Status = Some ''Created''\<rparr> \<and>
   fst (handler fresh_account (Some ''us-east-1'') create_event u0) \<noteq>
     Inr \<lparr>resp_PhysicalResourceId = ''sub-123456789012'', resp_Status = Some ''Created''\<rparr>"
  by code_simp

section \<open>The subscription workflow: the three groups\<close>

lemma createSubscription_ignores_groups:
  "createSubscription respond (props\<lparr>AuthorGroup := a, ReaderGroup := r\<rparr>) = createSubscription respond props"
  by (simp add: createSubscription_def Let_def)

lemma handler_try_ignores_groups:
  "handler_try respond AWS_REGION (props\<lparr>AuthorGroup := a, ReaderGroup := r\<rparr>) =
   handler_try respond AWS_REGION props"
  by (simp add: handler_try_def Let_def createSubscription_ignores_groups cong: if_cong)

lemma handler_catch_ignores_groups:
  "handler_catch respond (props\<lparr>AuthorGroup := a, ReaderGroup := r\<rparr>) thrown =
   handler_catch respond props thrown"
  by (simp add: handler_catch_def Let_def createSubscription_ignores_groups cong: if_cong option.case_cong)

lemma handler_ignores_groups:
  "handler respond AWS_REGION (ev\<lparr>ResourceProperties := (ResourceProperties ev)\<lparr>AuthorGroup := a, ReaderGroup := r\<rparr>\<rparr>) w
     = handler respond AWS_REGION ev w"
  by (simp add: handler_def Let_def handler_try_ignores_groups handler_catch_ignores_groups
      split: prod.splits sum.splits)

lemma stack_properties_groups:
  "stack_properties (ctx(''quickSightAuthorGroup'' := x, ''quickSightReaderGroup'' := y))
      acct prefix email dir =
   (stack_properties ctx acct prefix email dir)
     \<lparr>AuthorGroup := AuthorGroup (stack_properties (ctx(''quickSightAuthorGroup'' := x, ''quickSightReaderGroup'' := y))
                                      acct prefix email dir),
      ReaderGroup := ReaderGroup (stack_properties (ctx(''quickSightAuthorGroup'' := x, ''quickSightReaderGroup'' := y))
                                      acct prefix email dir)\<rparr>"
  by (simp add: stack_properties_def Let_def)

text \<open>
  Claim C10. The create command that \<open>createSubscription\<close> sends (1 to 10 times) has
  \<open>AdminGroup\<close>, \<open>AuthorGroup\<close> and \<open>ReaderGroup\<close> all equal to the one-element
  list of the \<open>AdminGroup\<close> property. The handler does the same, result and world,
  when the \<open>AuthorGroup\<close> and \<open>ReaderGroup\<close> properties are changed; in particular
  when the stack is given other author and reader group names in its context.
\<close>

theorem groups_all_from_admin_group:
  "(\<exists>k. 0 < k \<and> k \<le> 10 \<and>
        calls (snd (createSubscription respond props w)) =
          calls w @ replicate k
            (CreateAccountSubscriptionCommand
               \<lparr>in_AwsAccountId = AwsAccountId props,
                in_AccountName = AccountName props,
                in_Edition = Edition props,
                in_AuthenticationMethod = AuthenticationMethod props,
                in_ActiveDirectoryName = ActiveDirectoryName props,
                in_AdminGroup = [AdminGroup props],
                in_AuthorGroup = [AdminGroup props],
                in_ReaderGroup = [AdminGroup props],
                in_NotificationEmail = NotificationEmail props\<rparr>)) \<and>
   handler respond AWS_REGION
     (ev\<lparr>ResourceProperties := (ResourceProperties ev)\<lparr>AuthorGroup := a, ReaderGroup := r\<rparr>\<rparr>) w
     = handler respond AWS_REGION ev w \<and>
   handler respond AWS_REGION
     (ev\<lparr>ResourceProperties :=
           stack_properties (ctx(''quickSightAuthorGroup'' := x, ''quickSightReaderGroup'' := y))
             acct prefix email dir\<rparr>) w
     = handler respond AWS_REGION
         (ev\<lparr>ResourceProperties := stack_properties ctx acct prefix email dir\<rparr>) w"
proof (intro conjI)
  show "\<exists>k. 0 < k \<and> k \<le> 10 \<and>
        calls (snd (createSubscription respond props w)) =
          calls w @ replicate k
            (CreateAccountSubscriptionCommand
               \<lparr>in_AwsAccountId = AwsAccountId props,
                in_AccountName = AccountName props,
                in_Edition = Edition props,
                in_AuthenticationMethod = AuthenticationMethod props,
                in_ActiveDirectoryName = ActiveDirectoryName props,
                in_AdminGroup = [AdminGroup props],
                in_AuthorGroup = [AdminGroup props],
                in_ReaderGroup = [AdminGroup props],
                in_NotificationEmail = NotificationEmail props\<rparr>)"
    using createSubscription_calls [of respond props w] by (simp add: create_command_def)
next
  show "handler respond AWS_REGION
     (ev\<lparr>ResourceProperties := (ResourceProperties ev)\<lparr>AuthorGroup := a, ReaderGroup := r\<rparr>\<rparr>) w
     = handler respond AWS_REGION ev w"
    by (rule handler_ignores_groups)
next
  let ?p = "stack_properties ctx acct prefix email dir"
  let ?q = "stack_properties (ctx(''quickSightAuthorGroup'' := x, ''quickSightReaderGroup'' := y))
             acct prefix email dir"
  let ?ev = "ev\<lparr>ResourceProperties := ?p\<rparr>"
  have "ev\<lparr>ResourceProperties := ?q\<rparr> =
        ?ev\<lparr>ResourceProperties := (ResourceProperties ?ev)\<lparr>AuthorGroup := AuthorGroup ?q, ReaderGroup := ReaderGroup ?q\<rparr>\<rparr>"
    using stack_properties_groups [of ctx x y acct prefix email dir] by simp
  then show "handler respond AWS_REGION (ev\<lparr>ResourceProperties := ?q\<rparr>) w = handler respond AWS_REGION ?ev w"
    by (simp only: handler_ignores_groups)
qed

theorem groups_all_from_admin_group_witness:
  "AdminGroup example_props = ''Admins'' \<and>
   AuthorGroup example_props = Some ''Authors'' \<and>
   ReaderGroup example_props = Some ''Readers'' \<and>
   handler fresh_account (Some ''us-east-1'') create_event u0 =
   handler fresh_account (Some ''us-east-1'')
     (create_event\<lparr>ResourceProperties :=
         stack_properties [''quickSightAdminGroup'' \<mapsto> ''Admins''] account ''managed-ad''
           ''admin@example.com'' ''d-1234567890''\<rparr>) u0 \<and>
   calls (snd (handler fresh_account (Some ''us-east-1'') create_event u0)) =
     [DescribeAccountSubscriptionCommand account,
      CreateAccountSubscriptionCommand
        \<lparr>in_AwsAccountId = account,
         in_AccountName = ''managed-ad-123456789012'',
         in_Edition = ''ENTERPRISE'',
         in_AuthenticationMethod = ''ACTIVE_DIRECTORY'',
         in_ActiveDirectoryName = ''d-1234567890'',
         in_AdminGroup = [''Admins''],
         in_AuthorGroup = [''Admins''],
         in_ReaderGroup = [''Admins''],
         in_NotificationEmail = ''admin@example.com''\<rparr>]"
proof -
  have g: "AdminGroup example_props = ''Admins''" "AuthorGroup example_props = Some ''Authors''"
    "ReaderGroup example_props = Some ''Readers''"
    by code_simp+
  have c: "calls (snd (handler fresh_account (Some ''us-east-1'') create_event u0)) =
     [DescribeAccountSubscriptionCommand account,
      CreateAccountSubscriptionCommand
        \<lparr>in_AwsAccountId = account,
         in_AccountName = ''managed-ad-123456789012'',
         in_Edition = ''ENTERPRISE'',
         in_AuthenticationMethod = ''ACTIVE_DIRECTORY'',
         in_ActiveDirectoryName = ''d-1234567890'',
         in_AdminGroup = [''Admins''],
         in_AuthorGroup = [''Admins''],
         in_ReaderGroup = [''Admins''],
         in_NotificationEmail = ''admin@example.com''\<rparr>]"
    by code_simp
  have e: "create_event\<lparr>ResourceProperties :=
         stack_properties
           ([''quickSightAdminGroup'' \<mapsto> ''Admins'']
              (''quickSightAuthorGroup'' := Some ''Authors'', ''quickSightReaderGroup'' := Some ''Readers''))
           account ''managed-ad'' ''admin@example.com'' ''d-1234567890''\<rparr> = create_event"
    by (simp add: create_event_def example_props_def)
  have "handler fresh_account (Some ''us-east-1'') create_event u0 =
   handler fresh_account (Some ''us-east-1'')
     (create_event\<lparr>ResourceProperties :=
         stack_properties [''quickSightAdminGroup'' \<mapsto> ''Admins''] account ''managed-ad''
           ''admin@example.com'' ''d-1234567890''\<rparr>) u0"
    using groups_all_from_admin_group [where respond = fresh_account and w = u0
        and AWS_REGION = "Some ''us-east-1''" and ev = create_event
        and ctx = "[''quickSightAdminGroup'' \<mapsto> ''Admins'']"
        and x = "Some ''Authors''" and y = "Some ''Readers''"
        and acct = account and prefix = "''managed-ad''" and email = "''admin@example.com''"
        and dir = "''d-1234567890''" and props = example_props and a = None and r = None]
    unfolding e by blast
  then show ?thesis using g c by simp
qed

section \<open>The remote poller\<close>

lemma waitForCommand_from_stop:
  "\<not> i < 90 \<Longrightarrow> waitForCommand_from respond instanceId commandId i w = (Inr (), w)"
  by (simp add: waitForCommand_from.simps)

lemma waitForCommand_from_step:
  "i < 90 \<Longrightarrow> waitForCommand_from respond instanceId commandId i w =
     (case send respond (GetCommandInvocationCommand commandId instanceId) w of
        (x, w') \<Rightarrow> if terminal_answer x then (Inr (), w')
                   else waitForCommand_from respond instanceId commandId (Suc i) (sleep 10000 w'))"
  by (subst waitForCommand_from.simps)
     (simp add: terminal_answer_def Let_def split: prod.splits sum.splits)

lemma waitForCommand_from_returns:
  "fst (waitForCommand_from respond instanceId commandId i w) = Inr ()"
proof (induction "90 - i" arbitrary: i w)
  case 0
  then show ?case by (simp add: waitForCommand_from_stop)
next
  case (Suc d)
  then have lt: "i < 90" and d: "d = 90 - Suc i" by simp_all
  show ?case
    using Suc.hyps(1) [OF d] lt
    by (simp add: waitForCommand_from_step split: prod.splits)
qed

lemma waitForCommand_returns:
  "fst (waitForCommand respond instanceId commandId w) = Inr ()"
  by (simp add: waitForCommand_def waitForCommand_from_returns)

lemma waitForCommand_from_gives_up:
  assumes "\<forall>n < 90 - i. \<not> terminal_answer
             (answer_at respond (GetCommandInvocationCommand commandId instanceId) (remote w) n)"
  shows "calls (snd (waitForCommand_from respond instanceId commandId i w)) =
           calls w @ replicate (90 - i) (GetCommandInvocationCommand commandId instanceId) \<and>
         sleeps (snd (waitForCommand_from respond instanceId commandId i w)) =
           sleeps w @ replicate (90 - i) 10000"
  using assms
proof (induction "90 - i" arbitrary: i w)
  case 0
  then show ?case by (simp add: waitForCommand_from_stop)
next
  case (Suc d)
  let ?G = "GetCommandInvocationCommand commandId instanceId"
  from Suc.hyps(2) have lt: "i < 90" and d: "d = 90 - Suc i" and s: "90 - i = Suc (90 - Suc i)" by simp_all
  obtain x s1 where rs: "respond (remote w) ?G = (x, s1)" by (cases "respond (remote w) ?G")
  define w2 where "w2 = sleep 10000 (w\<lparr>remote := s1, calls := calls w @ [?G]\<rparr>)"
  have sw: "send respond ?G w = (x, w\<lparr>remote := s1, calls := calls w @ [?G]\<rparr>)"
    by (simp add: send_def rs)
  have nt: "\<not> terminal_answer x"
    using Suc.prems lt rs by (auto dest: spec [of _ 0])
  have step: "waitForCommand_from respond instanceId commandId i w =
              waitForCommand_from respond instanceId commandId (Suc i) w2"
    using lt sw nt by (simp add: waitForCommand_from_step w2_def)
  have "\<forall>n < 90 - Suc i. \<not> terminal_answer (answer_at respond ?G (remote w2) n)"
  proof (intro allI impI)
    fix n assume "n < 90 - Suc i"
    then have "Suc n < 90 - i" using lt by simp
    then have "\<not> terminal_answer (answer_at respond ?G (remote w) (Suc n))" using Suc.prems by blast
    then show "\<not> terminal_answer (answer_at respond ?G (remote w2) n)" by (simp add: rs w2_def)
  qed
  from Suc.hyps(1) [OF d this]
  have "calls (snd (waitForCommand_from respond instanceId commandId (Suc i) w2)) =
           calls w2 @ replicate (90 - Suc i) ?G"
    and "sleeps (snd (waitForCommand_from respond instanceId commandId (Suc i) w2)) =
           sleeps w2 @ replicate (90 - Suc i) 10000"
    by simp_all
  then show ?case
    unfolding step s by (simp add: w2_def replicate_app_Cons_same)
qed

lemma waitForCommand_from_stops_at:
  assumes "j < 90 - i"
    and "\<forall>n < j. \<not> terminal_answer
             (answer_at respond (GetCommandInvocationCommand commandId instanceId) (remote w) n)"
    and "terminal_answer (answer_at respond (GetCommandInvocationCommand commandId instanceId) (remote w) j)"
  shows "calls (snd (waitForCommand_from respond instanceId commandId i w)) =
           calls w @ replicate (Suc j) (GetCommandInvocationCommand commandId instanceId) \<and>
         sleeps (snd (waitForCommand_from respond instanceId commandId i w)) =
           sleeps w @ replicate j 10000"
  using assms
proof (induction j arbitrary: i w)
  case 0
  let ?G = "GetCommandInvocationCommand commandId instanceId"
  obtain x s1 where rs: "respond (remote w) ?G = (x, s1)" by (cases "respond (remote w) ?G")
  have "terminal_answer x" using 0 rs by simp
  moreover have "i < 90" using 0 by simp
  ultimately show ?case by (simp add: waitForCommand_from_step send_def rs)
next
  case (Suc j)
  let ?G = "GetCommandInvocationCommand commandId instanceId"
  obtain x s1 where rs: "respond (remote w) ?G = (x, s1)" by (cases "respond (remote w) ?G")
  define w2 where "w2 = sleep 10000 (w\<lparr>remote := s1, calls := calls w @ [?G]\<rparr>)"
  have lt: "i < 90" and j: "j < 90 - Suc i" using Suc.prems(1) by simp_all
  have nt: "\<not> terminal_answer x" using Suc.prems(2) rs by (auto dest: spec [of _ 0])
  have step: "waitForCommand_from respond instanceId commandId i w =
              waitForCommand_from respond instanceId commandId (Suc i) w2"
    using lt nt by (simp add: waitForCommand_from_step send_def rs w2_def)
  have a: "\<forall>n < j. \<not> terminal_answer (answer_at respond ?G (remote w2) n)"
  proof (intro allI impI)
    fix n assume "n < j"
    then have "Suc n < Suc j" by simp
    then have "\<not> terminal_answer (answer_at respond ?G (remote w) (Suc n))" using Suc.prems(2) by blast
    then show "\<not> terminal_answer (answer_at respond ?G (remote w2) n)" by (simp add: rs w2_def)
  qed
  have b: "terminal_answer (answer_at respond ?G (remote w2) j)"
    using Suc.prems(3) by (simp add: rs w2_def)
  from Suc.IH [OF j a b] show ?case
    unfolding step by (simp add: w2_def replicate_app_Cons_same)
qed

lemma answer_at_respond_by: "answer_at (respond_by f) cmd s n = f cmd"
  by (rule answer_at_constant) (simp add: respond_by_def)

text \<open>
  Claim C3, as amended. \<open>waitForCommand\<close> never throws and always returns the same
  (void) value. When none of its 90 polls observes a terminal status (poll errors
  included), it gives up after an initial delay of 30000 and 90 delays of 10000, having
  sent exactly 90 polls. When poll \<open>j\<close> is the first to observe a terminal status,
  \<open>Failed\<close> included, it returns after \<open>j + 1\<close> polls. The two outcomes differ in
  the polls sent and the time slept, not in what is returned.
\<close>

theorem waitForCommand_gives_up_silently:
  "fst (waitForCommand respond instanceId commandId w) = Inr () \<and>
   (commandId \<noteq> [] \<and>
    (\<forall>n < 90. \<not> terminal_answer
        (answer_at respond (GetCommandInvocationCommand commandId instanceId) (remote w) n)) \<longrightarrow>
      calls (snd (waitForCommand respond instanceId commandId w)) =
        calls w @ replicate 90 (GetCommandInvocationCommand commandId instanceId) \<and>
      sleeps (snd (waitForCommand respond instanceId commandId w)) =
        sleeps w @ 30000 # replicate 90 10000) \<and>
   (commandId \<noteq> [] \<and> j < 90 \<and>
    (\<forall>n < j. \<not> terminal_answer
        (answer_at respond (GetCommandInvocationCommand commandId instanceId) (remote w) n)) \<and>
    terminal_answer (answer_at respond (GetCommandInvocationCommand commandId instanceId) (remote w) j) \<longrightarrow>
      calls (snd (waitForCommand respond instanceId commandId w)) =
        calls w @ replicate (Suc j) (GetCommandInvocationCommand commandId instanceId) \<and>
      sleeps (snd (waitForCommand respond instanceId commandId w)) =
        sleeps w @ 30000 # replicate j 10000)"
proof (intro conjI impI)
  show "fst (waitForCommand respond instanceId commandId w) = Inr ()"
    by (rule waitForCommand_returns)
next
  assume a: "commandId \<noteq> [] \<and>
    (\<forall>n < 90. \<not> terminal_answer
        (answer_at respond (GetCommandInvocationCommand commandId instanceId) (remote w) n))"
  then have "\<forall>n < 90 - 0. \<not> terminal_answer
        (answer_at respond (GetCommandInvocationCommand commandId instanceId) (remote (sleep 30000 w)) n)"
    by simp
  from waitForCommand_from_gives_up [OF this] a
  show "calls (snd (waitForCommand respond instanceId commandId w)) =
        calls w @ replicate 90 (GetCommandInvocationCommand commandId instanceId)"
    and "sleeps (snd (waitForCommand respond instanceId commandId w)) =
        sleeps w @ 30000 # replicate 90 10000"
    by (simp_all add: waitForCommand_def)
next
  assume a: "commandId \<noteq> [] \<and> j < 90 \<and>
    (\<forall>n < j. \<not> terminal_answer
        (answer_at respond (GetCommandInvocationCommand commandId instanceId) (remote w) n)) \<and>
    terminal_answer (answer_at respond (GetCommandInvocationCommand commandId instanceId) (remote w) j)"
  then have "j < 90 - 0"
    and "\<forall>n < j. \<not> terminal_answer
        (answer_at respond (GetCommandInvocationCommand commandId instanceId) (remote (sleep 30000 w)) n)"
    and "terminal_answer
        (answer_at respond (GetCommandInvocationCommand commandId instanceId) (remote (sleep 30000 w)) j)"
    by simp_all
  from waitForCommand_from_stops_at [OF this] a
  show "calls (snd (waitForCommand respond instanceId commandId w)) =
        calls w @ replicate (Suc j) (GetCommandInvocationCommand commandId instanceId)"
    and "sleeps (snd (waitForCommand respond instanceId commandId w)) =
        sleeps w @ 30000 # replicate j 10000"
    by (simp_all add: waitForCommand_def)
qed

theorem waitForCommand_gives_up_silently_witness:
  "fst (waitForCommand never_done ''i-0123'' ''cmd-1'' u0) = Inr () \<and>
   calls (snd (waitForCommand never_done ''i-0123'' ''cmd-1'' u0)) =
     replicate 90 (GetCommandInvocationCommand ''cmd-1'' ''i-0123'') \<and>
   sleeps (snd (waitForCommand never_done ''i-0123'' ''cmd-1'' u0)) = 30000 # replicate 90 10000 \<and>
   calls (snd (waitForCommand failed_at_once ''i-0123'' ''cmd-1'' u0)) =
     [GetCommandInvocationCommand ''cmd-1'' ''i-0123''] \<and>
   sleeps (snd (waitForCommand failed_at_once ''i-0123'' ''cmd-1'' u0)) = [30000]"
proof -
  have n: "\<not> terminal_answer (answer_at never_done c s n)" for c s n
    by (simp add: never_done_def answer_at_respond_by terminal_answer_def empty_ad_output_def orElse_def)
  have f: "terminal_answer (answer_at failed_at_once c s n)" for c s n
    by (simp add: failed_at_once_def answer_at_respond_by terminal_answer_def empty_ad_output_def orElse_def)
  have u: "calls (u0 :: (unit, ad_command) world) = []" "sleeps (u0 :: (unit, ad_command) world) = []"
    by (simp_all add: u0_def)
  show ?thesis
    using waitForCommand_gives_up_silently [of never_done "''i-0123''" "''cmd-1''" u0 0]
      waitForCommand_gives_up_silently [of failed_at_once "''i-0123''" "''cmd-1''" u0 0]
    by (simp add: n f u del: answer_at.simps)
qed

text \<open>
  The claim as stated fails in its second part: a run that gives up after 90 polls and a
  run whose first poll observes \<open>Failed\<close> return the same value.
\<close>

theorem waitForCommand_gives_up_silently_counterexample:
  "fst (waitForCommand never_done ''i-0123'' ''cmd-1'' u0) =
   fst (waitForCommand failed_at_once ''i-0123'' ''cmd-1'' u0) \<and>
   length (calls (snd (waitForCommand never_done ''i-0123'' ''cmd-1'' u0))) = 90 \<and>
   fst (send failed_at_once (GetCommandInvocationCommand ''cmd-1'' ''i-0123'') u0) =
     Inr (empty_ad_output\<lparr>Status := Some ''Failed''\<rparr>)"
proof -
  have n: "\<forall>n < 90 - 0. \<not> terminal_answer
      (answer_at never_done (GetCommandInvocationCommand ''cmd-1'' ''i-0123'') (remote (sleep 30000 u0)) n)"
    by (simp add: never_done_def answer_at_respond_by terminal_answer_def empty_ad_output_def orElse_def
          del: answer_at.simps)
  have "length (calls (snd (waitForCommand never_done ''i-0123'' ''cmd-1'' u0))) = 90"
    using waitForCommand_from_gives_up [OF n] by (simp add: waitForCommand_def u0_def)
  moreover have "fst (send failed_at_once (GetCommandInvocationCommand ''cmd-1'' ''i-0123'') u0) =
     Inr (empty_ad_output\<lparr>Status := Some ''Failed''\<rparr>)"
    by (simp add: failed_at_once_def respond_by_def)
  ultimately show ?thesis by (simp add: waitForCommand_returns)
qed

section \<open>The compute workflow: Delete\<close>

text \<open>
  Claim C9. On Delete, when the previous identifier starts with \<open>i-\<close>, the handler
  sends one terminate command for that instance and nothing else; when there is no
  previous identifier or it does not start with \<open>i-\<close>, the handler leaves the world
  as it is (no command sent) and returns the previous identifier, or \<open>deleted\<close>.
\<close>

theorem delete_terminates_instances_only:
  assumes "ad_RequestType ev = Delete"
  shows "(\<forall>instanceId. ad_PhysicalResourceId ev = Some instanceId \<and> startsWith instanceId ''i-'' \<longrightarrow>
            calls (snd (ad_handler pf respond ev w)) = calls w @ [TerminateInstancesCommand [instanceId]]) \<and>
         (ad_PhysicalResourceId ev = None \<or>
          (\<exists>previous. ad_PhysicalResourceId ev = Some previous \<and> \<not> startsWith previous ''i-'') \<longrightarrow>
            ad_handler pf respond ev w =
              (Inr \<lparr>ad_resp_PhysicalResourceId = orElse (ad_PhysicalResourceId ev) ''deleted'',
                    ad_resp_InstanceId = None\<rparr>, w))"
proof (intro conjI allI impI)
  fix instanceId
  assume a: "ad_PhysicalResourceId ev = Some instanceId \<and> startsWith instanceId ''i-''"
  obtain x w1 where s: "send respond (TerminateInstancesCommand [instanceId]) w = (x, w1)"
    by (cases "send respond (TerminateInstancesCommand [instanceId]) w")
  have c: "calls w1 = calls w @ [TerminateInstancesCommand [instanceId]]"
    using send_calls [of respond "TerminateInstancesCommand [instanceId]" w] s by simp
  show "calls (snd (ad_handler pf respond ev w)) = calls w @ [TerminateInstancesCommand [instanceId]]"
    using assms a s c by (cases x) (simp_all add: ad_handler_def await_def)
next
  assume "ad_PhysicalResourceId ev = None \<or>
          (\<exists>previous. ad_PhysicalResourceId ev = Some previous \<and> \<not> startsWith previous ''i-'')"
  then show "ad_handler pf respond ev w =
              (Inr \<lparr>ad_resp_PhysicalResourceId = orElse (ad_PhysicalResourceId ev) ''deleted'',
                    ad_resp_InstanceId = None\<rparr>, w)"
    using assms by (auto simp add: ad_handler_def await_def)
qed

theorem delete_terminates_instances_only_witness:
  "calls (snd (ad_handler example_platform (compute_remote (Inr empty_ad_output) (Inr command_sent))
                 (ad_delete_event (Some ''i-0123'')) u0)) = [TerminateInstancesCommand [''i-0123'']] \<and>
   ad_handler example_platform (compute_remote (Inr empty_ad_output) (Inr command_sent))
     (ad_delete_event (Some ''deleted'')) u0 =
     (Inr \<lparr>ad_resp_PhysicalResourceId = ''deleted'', ad_resp_InstanceId = None\<rparr>, u0) \<and>
   ad_handler example_platform (compute_remote (Inr empty_ad_output) (Inr command_sent))
     (ad_delete_event None) u0 =
     (Inr \<lparr>ad_resp_PhysicalResourceId = ''deleted'', ad_resp_InstanceId = None\<rparr>, u0)"
proof -
  have d: "ad_RequestType (ad_delete_event p) = Delete" "ad_PhysicalResourceId (ad_delete_event p) = p" for p
    by (simp_all add: ad_delete_event_def)
  have s: "startsWith ''i-0123'' ''i-''" "\<not> startsWith ''deleted'' ''i-''"
    by (simp_all add: startsWith_def)
  have u: "calls (u0 :: (unit, ad_command) world) = []" by (simp add: u0_def)
  show ?thesis
    using delete_terminates_instances_only [OF d(1), of "Some ''i-0123''" example_platform
        "compute_remote (Inr empty_ad_output) (Inr command_sent)" u0]
      delete_terminates_instances_only [OF d(1), of "Some ''deleted''" example_platform
        "compute_remote (Inr empty_ad_output) (Inr command_sent)" u0]
      delete_terminates_instances_only [OF d(1), of None example_platform
        "compute_remote (Inr empty_ad_output) (Inr command_sent)" u0]
    by (simp add: d s u orElse_def)
qed

section \<open>The compute workflow: after the launch\<close>

lemma ad_handler_steps:
  assumes cu: "ad_RequestType ev \<noteq> Delete"
    and dns: "JSON_parse_string_list pf (orElse (env_DNS_IPS pf) ''[]'') = Inr dnsIps"
    and kp: "getOrCreateKeyPair pf respond (KeyPairSecretArn (ad_ResourceProperties ev)) w = (Inr keyPairInfo, w1)"
    and launch: "launchEC2Instance pf respond (SubnetId (ad_ResourceProperties ev))
                   (SecurityGroupId (ad_ResourceProperties ev)) (InstanceType (ad_ResourceProperties ev))
                   (fst keyPairInfo) w1 = (Inr instanceId, w2)"
  shows "ad_handler pf respond ev w =
           (case waitForInstance respond instanceId w2 of
              (Inl e, w3) \<Rightarrow> (Inl e, w3)
            | (Inr u, w3) \<Rightarrow>
                (case joinDomain pf respond instanceId (ad_DirectoryId (ad_ResourceProperties ev))
                        (orElse (env_DOMAIN_NAME pf) []) dnsIps w3 of
                   (Inl e, w4) \<Rightarrow> (Inl e, w4)
                 | (Inr u', w4) \<Rightarrow>
                     (Inr \<lparr>ad_resp_PhysicalResourceId = instanceId,
                           ad_resp_InstanceId = Some instanceId\<rparr>, w4)))"
  using cu by (simp add: ad_handler_def Let_def await_def dns kp launch split: prod.splits sum.splits)

lemma throws_last_appends: "throws_last respond m \<Longrightarrow> appends m"
  unfolding throws_last_def appends_def by blast

lemma appends_send: "appends (send respond cmd)"
  unfolding appends_def by simp

lemma appends_return: "appends (\<lambda>w. (r, w))"
  unfolding appends_def by simp

lemma appends_await:
  assumes "appends m" "\<And>v. appends (f v)"
  shows "appends (await m f)"
  unfolding appends_def
proof
  fix w
  obtain r w1 where mw: "m w = (r, w1)" by (cases "m w")
  obtain cs1 where c1: "calls w1 = calls w @ cs1"
    using assms(1) mw unfolding appends_def by (metis snd_conv)
  show "\<exists>cs. calls (snd (await m f w)) = calls w @ cs"
  proof (cases r)
    case (Inl e)
    then show ?thesis using mw c1 by (simp add: await_def)
  next
    case (Inr v)
    obtain cs2 where "calls (snd (f v w1)) = calls w1 @ cs2"
      using assms(2) [of v] unfolding appends_def by blast
    then show ?thesis using mw c1 Inr by (simp add: await_def)
  qed
qed

lemma throws_last_send:
  assumes "propagating cmd"
  shows "throws_last respond (send respond cmd)"
  unfolding throws_last_def
proof
  fix w
  show "\<exists>cs. calls (snd (send respond cmd w)) = calls w @ cs \<and>
        (\<forall>e. fst (send respond cmd w) = Inl e \<longrightarrow>
           cs \<noteq> [] \<and> propagating (last cs) \<and>
           (\<exists>s. respond s (last cs) = (Inl e, remote (snd (send respond cmd w)))))"
    using assms by (intro exI [of _ "[cmd]"]) (auto intro: exI [of _ "remote w"] simp: prod_eq_iff)
qed

lemma throws_last_return: "throws_last respond (\<lambda>w. (Inr v, g w))" if "\<And>w. calls (g w) = calls w"
  unfolding throws_last_def using that by simp

lemma throws_last_await:
  assumes "throws_last respond m" "\<And>v. throws_last respond (f v)"
  shows "throws_last respond (await m f)"
  unfolding throws_last_def
proof
  fix w
  obtain r w1 where mw: "m w = (r, w1)" by (cases "m w")
  obtain cs1 where c1: "calls w1 = calls w @ cs1"
    and t1: "\<forall>e. r = Inl e \<longrightarrow> cs1 \<noteq> [] \<and> propagating (last cs1) \<and>
                 (\<exists>s. respond s (last cs1) = (Inl e, remote w1))"
    using assms(1) mw unfolding throws_last_def by (metis fst_conv snd_conv)
  show "\<exists>cs. calls (snd (await m f w)) = calls w @ cs \<and>
        (\<forall>e. fst (await m f w) = Inl e \<longrightarrow>
           cs \<noteq> [] \<and> propagating (last cs) \<and>
           (\<exists>s. respond s (last cs) = (Inl e, remote (snd (await m f w)))))"
  proof (cases r)
    case (Inl e)
    then have "await m f w = (Inl e, w1)" using mw by (simp add: await_def)
    then show ?thesis using c1 t1 Inl by (intro exI [of _ cs1]) simp
  next
    case (Inr v)
    then have a: "await m f w = f v w1" using mw by (simp add: await_def)
    obtain cs2 where c2: "calls (snd (f v w1)) = calls w1 @ cs2"
      and t2: "\<forall>e. fst (f v w1) = Inl e \<longrightarrow> cs2 \<noteq> [] \<and> propagating (last cs2) \<and>
                 (\<exists>s. respond s (last cs2) = (Inl e, remote (snd (f v w1))))"
      using assms(2) [of v] unfolding throws_last_def by blast
    show ?thesis
      unfolding a using c1 c2 t2 by (intro exI [of _ "cs1 @ cs2"]) auto
  qed
qed

lemma throws_last_try_catch:
  assumes "appends body" "\<And>e. throws_last respond (handle e)"
  shows "throws_last respond (try_catch body handle)"
  unfolding throws_last_def
proof
  fix w
  obtain r w1 where bw: "body w = (r, w1)" by (cases "body w")
  obtain cs1 where c1: "calls w1 = calls w @ cs1"
    using assms(1) bw unfolding appends_def by (metis snd_conv)
  show "\<exists>cs. calls (snd (try_catch body handle w)) = calls w @ cs \<and>
        (\<forall>e. fst (try_catch body handle w) = Inl e \<longrightarrow>
           cs \<noteq> [] \<and> propagating (last cs) \<and>
           (\<exists>s. respond s (last cs) = (Inl e, remote (snd (try_catch body handle w)))))"
  proof (cases r)
    case (Inr v)
    then have "try_catch body handle w = (Inr v, w1)" using bw by (simp add: try_catch_def)
    then show ?thesis using c1 by (intro exI [of _ cs1]) simp
  next
    case (Inl e0)
    then have a: "try_catch body handle w = handle e0 w1" using bw by (simp add: try_catch_def)
    obtain cs2 where c2: "calls (snd (handle e0 w1)) = calls w1 @ cs2"
      and t2: "\<forall>e. fst (handle e0 w1) = Inl e \<longrightarrow> cs2 \<noteq> [] \<and> propagating (last cs2) \<and>
                 (\<exists>s. respond s (last cs2) = (Inl e, remote (snd (handle e0 w1))))"
      using assms(2) [of e0] unfolding throws_last_def by blast
    show ?thesis
      unfolding a using c1 c2 t2 by (intro exI [of _ "cs1 @ cs2"]) auto
  qed
qed

lemma never_throws_send:
  assumes "\<forall>s cmd. propagating cmd \<longrightarrow> (\<exists>out. fst (respond s cmd) = Inr out)" "propagating cmd"
  shows "never_throws (send respond cmd)"
  unfolding never_throws_def using assms by simp

lemma never_throws_return: "never_throws (\<lambda>w. (Inr v, g w))"
  unfolding never_throws_def by simp

lemma never_throws_await:
  assumes "never_throws m" "\<And>v. never_throws (f v)"
  shows "never_throws (await m f)"
  unfolding never_throws_def
proof
  fix w
  obtain v where "fst (m w) = Inr v" using assms(1) unfolding never_throws_def by blast
  then have "await m f w = f v (snd (m w))" by (cases "m w") (simp add: await_def)
  then show "\<exists>v. fst (await m f w) = Inr v"
    using assms(2) [of v] unfolding never_throws_def by simp
qed

lemma never_throws_try_catch:
  assumes "\<And>e. never_throws (handle e)"
  shows "never_throws (try_catch body handle)"
  unfolding never_throws_def
proof
  fix w
  obtain r w1 where bw: "body w = (r, w1)" by (cases "body w")
  show "\<exists>v. fst (try_catch body handle w) = Inr v"
  proof (cases r)
    case (Inr v)
    then show ?thesis using bw by (simp add: try_catch_def)
  next
    case (Inl e)
    then have "try_catch body handle w = handle e w1" using bw by (simp add: try_catch_def)
    then show ?thesis using assms [of e] unfolding never_throws_def by simp
  qed
qed

lemma waitForCommand_from_appends:
  "\<exists>cs. calls (snd (waitForCommand_from respond instanceId commandId i w)) = calls w @ cs"
proof (induction "90 - i" arbitrary: i w)
  case 0
  then show ?case by (simp add: waitForCommand_from_stop)
next
  case (Suc d)
  let ?G = "GetCommandInvocationCommand commandId instanceId"
  from Suc.hyps(2) have lt: "i < 90" and d: "d = 90 - Suc i" by simp_all
  obtain x w1 where sw: "send respond ?G w = (x, w1)" by (cases "send respond ?G w")
  have c1: "calls w1 = calls w @ [?G]" using send_calls [of respond ?G w] sw by simp
  show ?case
  proof (cases "terminal_answer x")
    case True
    then show ?thesis using lt sw c1 by (simp add: waitForCommand_from_step)
  next
    case False
    obtain cs where "calls (snd (waitForCommand_from respond instanceId commandId (Suc i) (sleep 10000 w1)))
                       = calls (sleep 10000 w1) @ cs"
      using Suc.hyps(1) [OF d] by blast
    then show ?thesis using lt sw c1 False by (simp add: waitForCommand_from_step)
  qed
qed

lemma waitForCommand_never_throws: "never_throws (waitForCommand respond instanceId commandId)"
  unfolding never_throws_def by (simp add: waitForCommand_returns)

lemma waitForCommand_throws_last: "throws_last respond (waitForCommand respond instanceId commandId)"
  unfolding throws_last_def
proof
  fix w
  obtain cs where "calls (snd (waitForCommand respond instanceId commandId w)) = calls w @ cs"
    using waitForCommand_from_appends [of respond instanceId commandId 0 "sleep 30000 w"]
    by (cases "commandId = []") (auto simp add: waitForCommand_def)
  then show "\<exists>cs. calls (snd (waitForCommand respond instanceId commandId w)) = calls w @ cs \<and>
        (\<forall>e. fst (waitForCommand respond instanceId commandId w) = Inl e \<longrightarrow>
           cs \<noteq> [] \<and> propagating (last cs) \<and>
           (\<exists>s. respond s (last cs) = (Inl e, remote (snd (waitForCommand respond instanceId commandId w)))))"
    by (simp add: waitForCommand_returns)
qed

lemma waitForInstance_throws_last: "throws_last respond (waitForInstance respond instanceId)"
  unfolding waitForInstance_def
  by (intro throws_last_await throws_last_send throws_last_return) simp_all

lemma waitForInstance_never_throws:
  assumes "\<forall>s cmd. propagating cmd \<longrightarrow> (\<exists>out. fst (respond s cmd) = Inr out)"
  shows "never_throws (waitForInstance respond instanceId)"
  unfolding waitForInstance_def
  by (intro never_throws_await never_throws_send [OF assms] never_throws_return) simp

lemma joinDomain_throws_last:
  "throws_last respond (joinDomain pf respond instanceId directoryId domainName dnsIps)"
  unfolding joinDomain_def getAdminPassword_def Let_def
  by (intro throws_last_await throws_last_send throws_last_return throws_last_try_catch
        waitForCommand_throws_last appends_await appends_send appends_return)
     simp_all

lemma joinDomain_never_throws:
  assumes "\<forall>s cmd. propagating cmd \<longrightarrow> (\<exists>out. fst (respond s cmd) = Inr out)"
  shows "never_throws (joinDomain pf respond instanceId directoryId domainName dnsIps)"
  unfolding joinDomain_def getAdminPassword_def Let_def
  by (intro never_throws_await never_throws_send [OF assms] never_throws_return never_throws_try_catch
        waitForCommand_never_throws)
     simp_all

lemma ad_handler_after_launch:
  assumes cu: "ad_RequestType ev \<noteq> Delete"
    and dns: "JSON_parse_string_list pf (orElse (env_DNS_IPS pf) ''[]'') = Inr dnsIps"
    and kp: "getOrCreateKeyPair pf respond (KeyPairSecretArn (ad_ResourceProperties ev)) w = (Inr keyPairInfo, w1)"
    and launch: "launchEC2Instance pf respond (SubnetId (ad_ResourceProperties ev))
                   (SecurityGroupId (ad_ResourceProperties ev)) (InstanceType (ad_ResourceProperties ev))
                   (fst keyPairInfo) w1 = (Inr instanceId, w2)"
  shows "ad_handler pf respond ev w =
           await (waitForInstance respond instanceId)
             (\<lambda>u. await (joinDomain pf respond instanceId (ad_DirectoryId (ad_ResourceProperties ev))
                            (orElse (env_DOMAIN_NAME pf) []) dnsIps)
                     (\<lambda>u' w. (Inr \<lparr>ad_resp_PhysicalResourceId = instanceId,
                                    ad_resp_InstanceId = Some instanceId\<rparr>, w))) w2"
  using cu by (simp add: ad_handler_def Let_def await_def dns kp launch)

text \<open>
  Claim C8, as amended. On a Create or Update invocation that has launched the instance
  \<open>instanceId\<close>:
  \<^item> when waiting for the running state throws, the handler throws that error; when the
    domain join and script step throws, the handler throws that error; in both cases no
    result, hence no instance identifier, is returned; when both steps return, the
    handler returns \<open>instanceId\<close>, as identifier and as \<open>InstanceId\<close>;
  \<^item> both steps return, and \<open>instanceId\<close> is returned, whenever the waiter and every
    \<open>DescribeInstanceInformationCommand\<close>, \<open>CreateDocumentCommand\<close>,
    \<open>SendCommandCommand\<close> and \<open>GetSecretValueCommand\<close> are answered without error,
    whatever the answers to \<open>GetDocumentCommand\<close> and to the polls of the command
    status are (errors, \<open>Failed\<close>, \<open>Cancelled\<close>, or never a terminal status);
  \<^item> when the handler throws after the launch, what it throws is the answer to the last
    command it sent, and that command is the waiter or one of the four commands above.
\<close>

theorem instance_id_only_on_success:
  assumes cu: "ad_RequestType ev \<noteq> Delete"
    and dns: "JSON_parse_string_list pf (orElse (env_DNS_IPS pf) ''[]'') = Inr dnsIps"
    and kp: "getOrCreateKeyPair pf respond (KeyPairSecretArn (ad_ResourceProperties ev)) w = (Inr keyPairInfo, w1)"
    and launch: "launchEC2Instance pf respond (SubnetId (ad_ResourceProperties ev))
                   (SecurityGroupId (ad_ResourceProperties ev)) (InstanceType (ad_ResourceProperties ev))
                   (fst keyPairInfo) w1 = (Inr instanceId, w2)"
  shows "(\<forall>e w3. waitForInstance respond instanceId w2 = (Inl e, w3) \<longrightarrow>
            ad_handler pf respond ev w = (Inl e, w3)) \<and>
         (\<forall>u w3 e w4.
            waitForInstance respond instanceId w2 = (Inr u, w3) \<and>
            joinDomain pf respond instanceId (ad_DirectoryId (ad_ResourceProperties ev))
              (orElse (env_DOMAIN_NAME pf) []) dnsIps w3 = (Inl e, w4) \<longrightarrow>
            ad_handler pf respond ev w = (Inl e, w4)) \<and>
         (\<forall>u w3 u' w4.
            waitForInstance respond instanceId w2 = (Inr u, w3) \<and>
            joinDomain pf respond instanceId (ad_DirectoryId (ad_ResourceProperties ev))
              (orElse (env_DOMAIN_NAME pf) []) dnsIps w3 = (Inr u', w4) \<longrightarrow>
            ad_handler pf respond ev w =
              (Inr \<lparr>ad_resp_PhysicalResourceId = instanceId, ad_resp_InstanceId = Some instanceId\<rparr>, w4)) \<and>
         ((\<forall>s cmd. propagating cmd \<longrightarrow> (\<exists>out. fst (respond s cmd) = Inr out)) \<longrightarrow>
            fst (ad_handler pf respond ev w) =
              Inr \<lparr>ad_resp_PhysicalResourceId = instanceId, ad_resp_InstanceId = Some instanceId\<rparr>) \<and>
         (\<forall>e. fst (ad_handler pf respond ev w) = Inl e \<longrightarrow>
            (\<exists>cs. calls (snd (ad_handler pf respond ev w)) = calls w2 @ cs \<and> cs \<noteq> [] \<and>
                  propagating (last cs) \<and>
                  (\<exists>s. respond s (last cs) = (Inl e, remote (snd (ad_handler pf respond ev w))))))"
proof -
  let ?res = "\<lparr>ad_resp_PhysicalResourceId = instanceId, ad_resp_InstanceId = Some instanceId\<rparr>"
  let ?join = "joinDomain pf respond instanceId (ad_DirectoryId (ad_ResourceProperties ev))
                 (orElse (env_DOMAIN_NAME pf) []) dnsIps"
  let ?m = "await (waitForInstance respond instanceId) (\<lambda>u. await ?join (\<lambda>u' w. (Inr ?res, w)))"
  have eq: "ad_handler pf respond ev w = ?m w2"
    by (rule ad_handler_after_launch [OF cu dns kp launch])
  have steps: "(\<forall>e w3. waitForInstance respond instanceId w2 = (Inl e, w3) \<longrightarrow>
            ad_handler pf respond ev w = (Inl e, w3)) \<and>
         (\<forall>u w3 e w4.
            waitForInstance respond instanceId w2 = (Inr u, w3) \<and> ?join w3 = (Inl e, w4) \<longrightarrow>
            ad_handler pf respond ev w = (Inl e, w4)) \<and>
         (\<forall>u w3 u' w4.
            waitForInstance respond instanceId w2 = (Inr u, w3) \<and> ?join w3 = (Inr u', w4) \<longrightarrow>
            ad_handler pf respond ev w = (Inr ?res, w4))"
    unfolding eq by (simp add: await_def)
  have quiet: "fst (ad_handler pf respond ev w) = Inr ?res"
    if h: "\<forall>s cmd. propagating cmd \<longrightarrow> (\<exists>out. fst (respond s cmd) = Inr out)"
  proof -
    obtain u where a: "fst (waitForInstance respond instanceId w2) = Inr u"
      using waitForInstance_never_throws [OF h] unfolding never_throws_def by blast
    obtain u' where b: "fst (?join (snd (waitForInstance respond instanceId w2))) = Inr u'"
      using joinDomain_never_throws [OF h] unfolding never_throws_def by blast
    show ?thesis
      unfolding eq using a b
      by (cases "waitForInstance respond instanceId w2";
          cases "?join (snd (waitForInstance respond instanceId w2))") (simp add: await_def)
  qed
  have "throws_last respond ?m"
    by (intro throws_last_await waitForInstance_throws_last joinDomain_throws_last throws_last_return) simp
  then have loud: "\<forall>e. fst (ad_handler pf respond ev w) = Inl e \<longrightarrow>
            (\<exists>cs. calls (snd (ad_handler pf respond ev w)) = calls w2 @ cs \<and> cs \<noteq> [] \<and>
                  propagating (last cs) \<and>
                  (\<exists>s. respond s (last cs) = (Inl e, remote (snd (ad_handler pf respond ev w)))))"
    unfolding eq throws_last_def by blast
  show ?thesis using steps quiet loud by blast
qed

lemma example_steps:
  "ad_RequestType ad_create_event \<noteq> Delete"
  "JSON_parse_string_list example_platform (orElse (env_DNS_IPS example_platform) ''[]'') = Inr []"
  by code_simp+

lemma example_key_pair:
  "getOrCreateKeyPair example_platform (compute_remote x y) (KeyPairSecretArn (ad_ResourceProperties ad_create_event)) u0
     = (Inr (Some ''ad-automation-key-1700000000000'', Some ''pem''), after_key_pair)"
  by (simp add: getOrCreateKeyPair_def try_catch_def await_def send_def compute_remote_def respond_by_def
        example_platform_def ad_create_event_def example_ad_properties_def u0_def after_key_pair_def
        empty_ad_output_def orElse_def Let_def invalid_key_pair_def)

lemma example_launch:
  "launchEC2Instance example_platform (compute_remote x y)
     (SubnetId (ad_ResourceProperties ad_create_event))
     (SecurityGroupId (ad_ResourceProperties ad_create_event))
     (InstanceType (ad_ResourceProperties ad_create_event))
     (fst (Some ''ad-automation-key-1700000000000'', Some ''pem'')) after_key_pair
     = (Inr ''i-0123'', after_launch)"
  by code_simp

lemma example_wait:
  "waitForInstance (compute_remote (Inr empty_ad_output) y) ''i-0123'' after_launch = (Inr (), after_wait)"
  "waitForInstance (compute_remote (Inl waiter_timeout) y) ''i-0123'' after_launch
     = (Inl waiter_timeout, after_launch\<lparr>calls := calls after_launch @ [wait_command]\<rparr>)"
  by code_simp+

lemma example_join:
  "fst (joinDomain example_platform (compute_remote (Inr empty_ad_output) (Inr command_sent)) ''i-0123''
          (ad_DirectoryId (ad_ResourceProperties ad_create_event))
          (orElse (env_DOMAIN_NAME example_platform) []) [] after_wait) = Inr ()"
  "fst (joinDomain example_platform (compute_remote (Inr empty_ad_output) (Inl invalid_instance)) ''i-0123''
          (ad_DirectoryId (ad_ResourceProperties ad_create_event))
          (orElse (env_DOMAIN_NAME example_platform) []) [] after_wait) = Inl invalid_instance"
  by code_simp+

lemma with_snd: "fst p = x \<Longrightarrow> p = (x, snd p)"
  by (cases p) simp

lemma example_quiet:
  "\<forall>s cmd. propagating cmd \<longrightarrow>
      (\<exists>out. fst (compute_remote (Inr empty_ad_output) (Inr command_sent) s cmd) = Inr out)"
  "\<forall>s cmd. propagating cmd \<longrightarrow> (\<exists>out. fst (unanswered_polls s cmd) = Inr out)"
proof -
  show "\<forall>s cmd. propagating cmd \<longrightarrow>
      (\<exists>out. fst (compute_remote (Inr empty_ad_output) (Inr command_sent) s cmd) = Inr out)"
  proof (intro allI impI)
    fix s :: unit and cmd assume "propagating cmd"
    then show "\<exists>out. fst (compute_remote (Inr empty_ad_output) (Inr command_sent) s cmd) = Inr out"
      by (cases cmd) (simp_all add: compute_remote_def respond_by_def)
  qed
  show "\<forall>s cmd. propagating cmd \<longrightarrow> (\<exists>out. fst (unanswered_polls s cmd) = Inr out)"
  proof (intro allI impI)
    fix s :: unit and cmd assume "propagating cmd"
    then show "\<exists>out. fst (unanswered_polls s cmd) = Inr out"
      by (cases cmd) (simp_all add: unanswered_polls_def compute_remote_def respond_by_def)
  qed
qed

lemma example_unanswered:
  "getOrCreateKeyPair example_platform unanswered_polls (KeyPairSecretArn (ad_ResourceProperties ad_create_event)) u0
     = (Inr (Some ''ad-automation-key-1700000000000'', Some ''pem''), after_key_pair)"
  "launchEC2Instance example_platform unanswered_polls
     (SubnetId (ad_ResourceProperties ad_create_event))
     (SecurityGroupId (ad_ResourceProperties ad_create_event))
     (InstanceType (ad_ResourceProperties ad_create_event))
     (fst (Some ''ad-automation-key-1700000000000'', Some ''pem'')) after_key_pair
     = (Inr ''i-0123'', after_launch)"
  by code_simp+

theorem instance_id_only_on_success_witness:
  "fst (ad_handler example_platform (compute_remote (Inr empty_ad_output) (Inr command_sent)) ad_create_event u0)
     = Inr \<lparr>ad_resp_PhysicalResourceId = ''i-0123'', ad_resp_InstanceId = Some ''i-0123''\<rparr> \<and>
   fst (ad_handler example_platform unanswered_polls ad_create_event u0)
     = Inr \<lparr>ad_resp_PhysicalResourceId = ''i-0123'', ad_resp_InstanceId = Some ''i-0123''\<rparr> \<and>
   fst (ad_handler example_platform (compute_remote (Inl waiter_timeout) (Inr command_sent)) ad_create_event u0)
     = Inl waiter_timeout \<and>
   propagating (last (calls (snd (ad_handler example_platform
       (compute_remote (Inl waiter_timeout) (Inr command_sent)) ad_create_event u0)))) \<and>
   fst (ad_handler example_platform (compute_remote (Inr empty_ad_output) (Inl invalid_instance)) ad_create_event u0)
     = Inl invalid_instance"
proof -
  note t = instance_id_only_on_success [OF example_steps example_key_pair example_launch]
  note t' = instance_id_only_on_success [OF example_steps example_unanswered]
  have 1: "fst (ad_handler example_platform (compute_remote (Inr empty_ad_output) (Inr command_sent)) ad_create_event u0)
     = Inr \<lparr>ad_resp_PhysicalResourceId = ''i-0123'', ad_resp_InstanceId = Some ''i-0123''\<rparr>"
    using t [of "Inr empty_ad_output" "Inr command_sent"] example_quiet(1) by blast
  have 2: "fst (ad_handler example_platform unanswered_polls ad_create_event u0)
     = Inr \<lparr>ad_resp_PhysicalResourceId = ''i-0123'', ad_resp_InstanceId = Some ''i-0123''\<rparr>"
    using t' example_quiet(2) by blast
  have 3: "fst (ad_handler example_platform (compute_remote (Inl waiter_timeout) (Inr command_sent)) ad_create_event u0)
     = Inl waiter_timeout"
    using t [of "Inl waiter_timeout" "Inr command_sent"] example_wait(2) [of "Inr command_sent"]
    by (metis fst_conv)
  obtain cs where "calls (snd (ad_handler example_platform
       (compute_remote (Inl waiter_timeout) (Inr command_sent)) ad_create_event u0)) = calls after_launch @ cs"
    "cs \<noteq> []" "propagating (last cs)"
    using t [of "Inl waiter_timeout" "Inr command_sent"] 3 by blast
  then have 4: "propagating (last (calls (snd (ad_handler example_platform
       (compute_remote (Inl waiter_timeout) (Inr command_sent)) ad_create_event u0))))"
    by simp
  have 5: "fst (ad_handler example_platform (compute_remote (Inr empty_ad_output) (Inl invalid_instance)) ad_create_event u0)
     = Inl invalid_instance"
    using t [of "Inr empty_ad_output" "Inl invalid_instance"] example_wait(1) [of "Inl invalid_instance"]
      with_snd [OF example_join(2)]
    by (metis fst_conv)
  show ?thesis using 1 2 3 4 5 by simp
qed

text \<open>
  The claim as stated fails: the instance is launched, the waiter times out, and the
  handler throws without returning the identifier of the instance.
\<close>

theorem instance_id_only_on_success_counterexample:
  "fst (ad_handler example_platform (compute_remote (Inl waiter_timeout) (Inr command_sent)) ad_create_event u0)
     = Inl waiter_timeout \<and>
   launch_command \<in> set (calls (snd (ad_handler example_platform
       (compute_remote (Inl waiter_timeout) (Inr command_sent)) ad_create_event u0)))"
proof -
  have "ad_handler example_platform (compute_remote (Inl waiter_timeout) (Inr command_sent)) ad_create_event u0
          = (Inl waiter_timeout, after_launch\<lparr>calls := calls after_launch @ [wait_command]\<rparr>)"
    by (simp add: ad_handler_steps [OF example_steps example_key_pair example_launch] example_wait(2))
  then show ?thesis by (simp add: after_launch_def)
qed

end
